theory Spec2Isabelle
  imports Main "HOL-Library.AList"
begin

section \<open>Values of the runtime\<close>

text \<open>
  The values that cross the cache and the token codec are the JSON-serialisable values of
  JavaScript. Numbers are modelled as integers (TTLs, timestamps and counters are the
  only numbers the modelled code computes with).
\<close>

datatype json =
    JNull
  | JBool bool
  | JNum int
  | JStr string
  | JArr "json list"
  | JObj "(string \<times> json) list"

text \<open>JavaScript truthiness, as decided by \<^verbatim>\<open>if (x)\<close>, \<^verbatim>\<open>x ? a : b\<close> and \<^verbatim>\<open>x || y\<close>.\<close>

fun truthy :: "json \<Rightarrow> bool" where
  "truthy JNull = False"
| "truthy (JBool b) = b"
| "truthy (JNum n) = (n \<noteq> 0)"
| "truthy (JStr s) = (s \<noteq> [])"
| "truthy (JArr xs) = True"
| "truthy (JObj kvs) = True"

text \<open>Everything the modelled code can throw.\<close>

datatype error =
    ApiError string nat
  | RedisError
  | PrismaError
  | TypeError
  | SyntaxError
  | TokenExpiredError
  | JsonWebTokenError

text \<open>
  \<^verbatim>\<open>JSON.stringify\<close> and \<^verbatim>\<open>JSON.parse\<close> belong to the runtime, not to the repository;
  they are a parameter of the model. \<open>JSON_parse\<close> returns \<open>Inl SyntaxError\<close> where the
  runtime throws.
\<close>

record JSON =
  JSON_stringify :: "json \<Rightarrow> string"
  JSON_parse :: "string \<Rightarrow> error + json"

text \<open>
  The configuration object of \<^verbatim>\<open>config/index.ts\<close> (the fields the core reads).
  \<open>jwt_expiresIn\<close> is the number of seconds the configured span stands for.
\<close>

record config =
  jwt_secret :: string
  jwt_expiresIn :: nat
  apiKey :: string
  cache_ttl :: int

section \<open>The Redis client wrapper (lib/redis.ts)\<close>

text \<open>
  Modelled from the spec: the server behind the client is missing from the sources. It is
  a key-value store with a TTL per entry and pattern-based enumeration of keys; an entry
  carries an optional absolute expiry time in seconds. \<open>faulty\<close> stands for the I/O
  failures of the connection: while it holds, every command sent through the client throws.
\<close>

record RedisClient =
  isConnected :: bool
  faulty :: bool
  entries :: "(string \<times> string \<times> nat option) list"

definition isReady :: "RedisClient \<Rightarrow> bool" where
  "isReady c = isConnected c"

definition live :: "nat \<Rightarrow> string \<times> nat option \<Rightarrow> bool" where
  "live now e = (case snd e of None \<Rightarrow> True | Some t \<Rightarrow> now < t)"

definition redis_get :: "RedisClient \<Rightarrow> nat \<Rightarrow> string \<Rightarrow> error + string option" where
  "redis_get c now key =
     (if faulty c then Inl RedisError
      else Inr (case map_of (entries c) key of
                  None \<Rightarrow> None
                | Some e \<Rightarrow> if live now e then Some (fst e) else None))"

text \<open>
  \<^verbatim>\<open>if (ttlSeconds) setEx(key, ttlSeconds, value) else set(key, value)\<close>: an absent or
  zero TTL stores the entry without expiry; the server refuses \<^verbatim>\<open>SETEX\<close> with a negative
  TTL.
\<close>

definition redis_set ::
  "RedisClient \<Rightarrow> nat \<Rightarrow> string \<Rightarrow> string \<Rightarrow> int option \<Rightarrow> error + RedisClient" where
  "redis_set c now key val ttlSeconds =
     (if faulty c then Inl RedisError
      else case ttlSeconds of
        None \<Rightarrow> Inr (c\<lparr>entries := AList.update key (val, None) (entries c)\<rparr>)
      | Some t \<Rightarrow>
          if t = 0 then Inr (c\<lparr>entries := AList.update key (val, None) (entries c)\<rparr>)
          else if t < 0 then Inl RedisError
          else Inr (c\<lparr>entries := AList.update key (val, Some (now + nat t)) (entries c)\<rparr>))"

definition redis_del :: "RedisClient \<Rightarrow> string \<Rightarrow> error + RedisClient" where
  "redis_del c key =
     (if faulty c then Inl RedisError
      else Inr (c\<lparr>entries := AList.delete key (entries c)\<rparr>))"

definition redis_flush :: "RedisClient \<Rightarrow> error + RedisClient" where
  "redis_flush c = (if faulty c then Inl RedisError else Inr (c\<lparr>entries := []\<rparr>))"

text \<open>
  Glob matching of \<^verbatim>\<open>KEYS\<close>: \<open>*\<close> matches any run of characters, \<open>?\<close> exactly one.
  (Bracket classes and escapes occur in no pattern of the repository.)
\<close>

fun glob_match :: "string \<Rightarrow> string \<Rightarrow> bool" where
  "glob_match [] [] = True"
| "glob_match [] (c # s) = False"
| "glob_match (p # ps) [] = (p = CHR ''*'' \<and> glob_match ps [])"
| "glob_match (p # ps) (c # s) =
     (if p = CHR ''*'' then glob_match ps (c # s) \<or> glob_match (p # ps) s
      else (p = CHR ''?'' \<or> p = c) \<and> glob_match ps s)"

definition redis_keys :: "RedisClient \<Rightarrow> nat \<Rightarrow> string \<Rightarrow> error + string list" where
  "redis_keys c now pattern =
     (if faulty c then Inl RedisError
      else Inr (map fst (filter (\<lambda>kv. live now (snd kv) \<and> glob_match pattern (fst kv))
                                (entries c))))"

section \<open>The cache service (services/cache.service.ts)\<close>

text \<open>
  \<^verbatim>\<open>get\<close> answers \<^verbatim>\<open>null\<close> for a miss, for a cache that is not ready and for any error;
  a cached value comes back as the parsed text.
\<close>

definition cache_get :: "JSON \<Rightarrow> RedisClient \<Rightarrow> nat \<Rightarrow> string \<Rightarrow> json" where
  "cache_get J c now key =
     (if \<not> isReady c then JNull
      else case redis_get c now key of
        Inl e \<Rightarrow> JNull
      | Inr None \<Rightarrow> JNull
      | Inr (Some d) \<Rightarrow>
          if d = [] then JNull
          else (case JSON_parse J d of Inl e \<Rightarrow> JNull | Inr v \<Rightarrow> v))"

text \<open>\<^verbatim>\<open>ttlSeconds || this.defaultTTL\<close>\<close>

definition ttl_or_default :: "int option \<Rightarrow> int \<Rightarrow> int" where
  "ttl_or_default ttlSeconds dflt =
     (case ttlSeconds of None \<Rightarrow> dflt | Some t \<Rightarrow> if t = 0 then dflt else t)"

definition cache_set ::
  "JSON \<Rightarrow> config \<Rightarrow> RedisClient \<Rightarrow> nat \<Rightarrow> string \<Rightarrow> json \<Rightarrow> int option \<Rightarrow> RedisClient" where
  "cache_set J cfg c now key v ttlSeconds =
     (if \<not> isReady c then c
      else case redis_set c now key (JSON_stringify J v)
                  (Some (ttl_or_default ttlSeconds (cache_ttl cfg))) of
        Inl e \<Rightarrow> c
      | Inr c' \<Rightarrow> c')"

definition cache_delete :: "RedisClient \<Rightarrow> string \<Rightarrow> RedisClient" where
  "cache_delete c key =
     (if \<not> isReady c then c
      else case redis_del c key of Inl e \<Rightarrow> c | Inr c' \<Rightarrow> c')"

text \<open>The loop \<^verbatim>\<open>for (const key of keys) await redis.del(key)\<close>; the first failure ends it.\<close>

fun del_all :: "RedisClient \<Rightarrow> string list \<Rightarrow> RedisClient" where
  "del_all c [] = c"
| "del_all c (k # ks) = (case redis_del c k of Inl e \<Rightarrow> c | Inr c' \<Rightarrow> del_all c' ks)"

definition cache_deletePattern :: "RedisClient \<Rightarrow> nat \<Rightarrow> string \<Rightarrow> RedisClient" where
  "cache_deletePattern c now pattern =
     (if \<not> isReady c then c
      else case redis_keys c now pattern of Inl e \<Rightarrow> c | Inr ks \<Rightarrow> del_all c ks)"

definition cache_clear :: "RedisClient \<Rightarrow> RedisClient" where
  "cache_clear c =
     (if \<not> isReady c then c
      else case redis_flush c of Inl e \<Rightarrow> c | Inr c' \<Rightarrow> c')"

text \<open>
  \<^verbatim>\<open>getOrSet\<close> returns the value (or the producer's error), the client after the call and
  the number of times the producer was invoked.
\<close>

definition getOrSet ::
  "JSON \<Rightarrow> config \<Rightarrow> RedisClient \<Rightarrow> nat \<Rightarrow> string \<Rightarrow> (unit \<Rightarrow> error + json) \<Rightarrow> int option
     \<Rightarrow> (error + json) \<times> RedisClient \<times> nat" where
  "getOrSet J cfg c now key fetcher ttlSeconds =
     (let cached = cache_get J c now key in
      if truthy cached then (Inr cached, c, 0)
      else case fetcher () of
        Inl e \<Rightarrow> (Inl e, c, 1)
      | Inr data \<Rightarrow> (Inr data, cache_set J cfg c now key data ttlSeconds, 1))"

section \<open>The response cache (middleware/cache.middleware.ts)\<close>

text \<open>
  \<^verbatim>\<open>cacheMiddleware(ttlSeconds)\<close> in front of a handler. \<open>handler ()\<close> is what the rest of
  the chain sends with \<^verbatim>\<open>res.json\<close>: a status and a body. The result is the response the
  client gets and the Redis client afterwards. Only \<^verbatim>\<open>GET\<close> requests are served from and
  written to the cache, under the key \<^verbatim>\<open>cache:\<close> followed by the request's URL; only a
  response with a 2xx status is stored. The write to the cache is not awaited and its
  failure is only logged; it is taken as done when the response is sent.
\<close>

definition cacheMiddleware ::
  "JSON \<Rightarrow> config \<Rightarrow> RedisClient \<Rightarrow> nat \<Rightarrow> int option \<Rightarrow> string \<Rightarrow> string
     \<Rightarrow> (unit \<Rightarrow> nat \<times> json) \<Rightarrow> (nat \<times> json) \<times> RedisClient" where
  "cacheMiddleware J cfg c now ttlSeconds method originalUrl handler =
     (let cacheKey = ''cache:'' @ originalUrl;
          fresh = (case handler () of
                     (status, body) \<Rightarrow>
                       ((status, body),
                        if 200 \<le> status \<and> status < 300
                        then (case redis_set c now cacheKey (JSON_stringify J body)
                                     (Some (ttl_or_default ttlSeconds (cache_ttl cfg))) of
                                Inl e \<Rightarrow> c
                              | Inr c' \<Rightarrow> c')
                        else c))
      in if method \<noteq> ''GET'' then (handler (), c)
         else if \<not> isReady c then (handler (), c)
         else case redis_get c now cacheKey of
           Inl e \<Rightarrow> (handler (), c)
         | Inr None \<Rightarrow> fresh
         | Inr (Some cachedResponse) \<Rightarrow>
             if cachedResponse = [] then fresh
             else (case JSON_parse J cachedResponse of
                     Inl e \<Rightarrow> (handler (), c)
                   | Inr parsed \<Rightarrow> ((200, parsed), c)))"

section \<open>The credential codec (utils/jwt.util.ts)\<close>

text \<open>An object of the runtime is an ordered list of its properties.\<close>

type_synonym object = "(string \<times> json) list"

text \<open>The static type \<^verbatim>\<open>JwtPayload\<close> of types/index.ts and the object a value of it is.\<close>

datatype principal_type = User | Admin

fun type_name :: "principal_type \<Rightarrow> string" where
  "type_name User = ''user''"
| "type_name Admin = ''admin''"

record JwtPayload =
  payload_id :: string
  payload_email :: string
  payload_role :: string
  payload_roleId :: "string option"
  payload_type :: principal_type

definition payload_object :: "JwtPayload \<Rightarrow> object" where
  "payload_object p =
     [(''id'', JStr (payload_id p)), (''email'', JStr (payload_email p)),
      (''role'', JStr (payload_role p))]
     @ (case payload_roleId p of None \<Rightarrow> [] | Some r \<Rightarrow> [(''roleId'', JStr r)])
     @ [(''type'', JStr (type_name (payload_type p)))]"

text \<open>
  The token library is imported, not part of the repository: it is a parameter of the
  codec. \<open>jwt_sign payload secret expiresIn now\<close> is \<^verbatim>\<open>jwt.sign(payload, secret, {expiresIn})\<close>
  called when the clock reads \<open>now\<close> seconds; \<open>jwt_verify token secret now\<close> is
  \<^verbatim>\<open>jwt.verify(token, secret)\<close>, with \<open>Inl\<close> where the library throws. A token is a
  string.
\<close>

record jsonwebtoken =
  jwt_sign :: "object \<Rightarrow> string \<Rightarrow> nat \<Rightarrow> nat \<Rightarrow> string"
  jwt_verify :: "string \<Rightarrow> string \<Rightarrow> nat \<Rightarrow> error + object"

definition generateToken :: "jsonwebtoken \<Rightarrow> config \<Rightarrow> nat \<Rightarrow> JwtPayload \<Rightarrow> string" where
  "generateToken L cfg now payload =
     jwt_sign L (payload_object payload) (jwt_secret cfg) (jwt_expiresIn cfg) now"

text \<open>Thirty days, in seconds.\<close>

definition generateRefreshToken ::
  "jsonwebtoken \<Rightarrow> config \<Rightarrow> nat \<Rightarrow> JwtPayload \<Rightarrow> string" where
  "generateRefreshToken L cfg now payload =
     jwt_sign L (payload_object payload) (jwt_secret cfg) (30 * 86400) now"

definition verifyToken :: "jsonwebtoken \<Rightarrow> config \<Rightarrow> nat \<Rightarrow> string \<Rightarrow> object option" where
  "verifyToken L cfg now token =
     (case jwt_verify L token (jwt_secret cfg) now of
        Inl e \<Rightarrow> None
      | Inr decoded \<Rightarrow> Some decoded)"

definition extractTokenFromHeader :: "string option \<Rightarrow> string option" where
  "extractTokenFromHeader authHeader =
     (case authHeader of
        None \<Rightarrow> None
      | Some h \<Rightarrow> if h = [] \<or> take 7 h \<noteq> ''Bearer '' then None else Some (drop 7 h))"

subsection \<open>The token library\<close>

text \<open>
  The library's tokens, as the spec describes them: a token is an opaque string, a signed,
  time-bounded claim set that encodes the principal's fields plus an issued-at and an
  expiry, protected with the shared secret so that any alteration of claims or expiry
  invalidates the signature. Here a token is the text of its claim set, a dot, and the tag
  of that text under the secret.

  What the library builds on is a parameter: the keyed hash \<open>hmac key text\<close> and the text
  encoding of a claim set, with \<open>decode_claims\<close> answering \<open>None\<close> for a text that
  encodes none.
\<close>

record jwt_primitives =
  hmac :: "string \<Rightarrow> string \<Rightarrow> string"
  encode_claims :: "object \<Rightarrow> string"
  decode_claims :: "string \<Rightarrow> object option"

text \<open>The two parts of a token: the text before its last dot and the tag after it.\<close>

fun split_token :: "string \<Rightarrow> (string \<times> string) option" where
  "split_token [] = None"
| "split_token (c # s) =
     (case split_token s of
        Some (a, b) \<Rightarrow> Some (c # a, b)
      | None \<Rightarrow> if c = CHR ''.'' then Some ([], s) else None)"

text \<open>
  Modelled from the spec: \<^verbatim>\<open>jwt.sign\<close> of the imported token library is missing from the
  sources. It produces a token encoding the claims plus the issued-at \<open>now\<close> and the expiry
  \<open>now + expiresIn\<close>, signed with the secret.
\<close>

definition sign :: "jwt_primitives \<Rightarrow> object \<Rightarrow> string \<Rightarrow> nat \<Rightarrow> nat \<Rightarrow> string" where
  "sign P payload secret expiresIn now =
     (let cs = payload @ [(''iat'', JNum (int now)), (''exp'', JNum (int now + int expiresIn))];
          input = encode_claims P cs
      in input @ ''.'' @ hmac P secret input)"

text \<open>
  Modelled from the spec: \<^verbatim>\<open>jwt.verify\<close> of the imported token library is missing from the
  sources. It checks signature integrity and expiry and returns the decoded claims only if
  both hold; a token is expired from the second its expiry names. (A claim set that
  carries no expiry has none to check.)
\<close>

definition verify :: "jwt_primitives \<Rightarrow> string \<Rightarrow> string \<Rightarrow> nat \<Rightarrow> error + object" where
  "verify P tok secret now =
     (case split_token tok of
        None \<Rightarrow> Inl JsonWebTokenError
      | Some (input, tag) \<Rightarrow>
          (case decode_claims P input of
             None \<Rightarrow> Inl JsonWebTokenError
           | Some cs \<Rightarrow>
               if tag \<noteq> hmac P secret input then Inl JsonWebTokenError
               else (case map_of cs ''exp'' of
                       None \<Rightarrow> Inr cs
                     | Some (JNum e) \<Rightarrow> if e \<le> int now then Inl TokenExpiredError else Inr cs
                     | Some other \<Rightarrow> Inl JsonWebTokenError)))"

definition spec_jwt :: "jwt_primitives \<Rightarrow> jsonwebtoken" where
  "spec_jwt P = \<lparr>jwt_sign = sign P, jwt_verify = verify P\<rparr>"

section \<open>The persistent store\<close>

text \<open>
  Modelled from the spec: the schema file is missing from the sources. These are the
  tables the core reads and writes, with the columns it touches. The store enforces the
  uniqueness of ids, of a role's slug and of a user's or admin's email, and the reference
  from a user to its role. \<open>db_down\<close> stands for the failures of the connection: while
  it holds, every query throws.
\<close>

record role =
  role_id :: string
  role_name :: string
  role_slug :: string
  role_description :: "string option"
  role_permissions :: "string option"
  role_isDefault :: bool
  role_isActive :: bool

record user =
  user_id :: string
  user_email :: string
  user_password :: string
  user_name :: string
  user_phone :: "string option"
  user_avatar :: "string option"
  user_roleId :: string
  user_isActive :: bool

record admin =
  admin_id :: string
  admin_email :: string
  admin_password :: string
  admin_name :: string
  admin_phone :: "string option"
  admin_avatar :: "string option"
  admin_role :: string
  admin_permissions :: "string option"
  admin_isActive :: bool

record session =
  session_token :: string
  session_userId :: string
  session_userType :: string
  session_expiresAt :: nat

record database =
  db_down :: bool
  roles :: "role list"
  users :: "user list"
  admins :: "admin list"
  sessions :: "session list"

text \<open>\<^verbatim>\<open>prisma.session.findFirst({where: {token, expiresAt: {gte: now}}})\<close>\<close>

definition session_findFirst :: "database \<Rightarrow> string \<Rightarrow> nat \<Rightarrow> error + session option" where
  "session_findFirst d tok now =
     (if db_down d then Inl PrismaError
      else Inr (find (\<lambda>s. session_token s = tok \<and> now \<le> session_expiresAt s) (sessions d)))"

text \<open>\<^verbatim>\<open>prisma.user.findUnique({where: {id}, include: {role: ...}})\<close>\<close>

definition user_findUnique_role ::
  "database \<Rightarrow> string \<Rightarrow> error + (user \<times> role option) option" where
  "user_findUnique_role d uid =
     (if db_down d then Inl PrismaError
      else Inr (case find (\<lambda>u. user_id u = uid) (users d) of
                  None \<Rightarrow> None
                | Some u \<Rightarrow> Some (u, find (\<lambda>r. role_id r = user_roleId u) (roles d))))"

section \<open>Authentication and authorization (middleware/auth.middleware.ts)\<close>

text \<open>
  The request carries the two credential headers and \<^verbatim>\<open>req.user\<close>. A middleware either
  calls \<^verbatim>\<open>next()\<close> with the request as it left it, or answers with a status and message.
\<close>

record request =
  authorization :: "string option"
  x_api_key :: "string option"
  req_user :: "object option"

datatype outcome = Next request | Respond nat string

definition sendUnauthorized :: "string \<Rightarrow> outcome" where
  "sendUnauthorized message = Respond 401 message"

definition sendForbidden :: "string \<Rightarrow> outcome" where
  "sendForbidden message = Respond 403 message"

definition system_user :: object where
  "system_user =
     [(''id'', JStr ''system''), (''email'', JStr ''api@system.local''),
      (''role'', JStr ''api''), (''type'', JStr ''admin'')]"

definition session_user :: "session \<Rightarrow> object" where
  "session_user s =
     [(''id'', JStr (session_userId s)), (''email'', JStr ''api-user''),
      (''role'', JStr ''api''), (''type'', JStr (session_userType s))]"

definition authenticate :: "jsonwebtoken \<Rightarrow> config \<Rightarrow> nat \<Rightarrow> request \<Rightarrow> outcome" where
  "authenticate L cfg now req =
     (case extractTokenFromHeader (authorization req) of
        None \<Rightarrow> sendUnauthorized ''Access token is required''
      | Some tok \<Rightarrow>
          if tok = [] then sendUnauthorized ''Access token is required''
          else (case verifyToken L cfg now tok of
                  None \<Rightarrow> sendUnauthorized ''Invalid or expired token''
                | Some decoded \<Rightarrow> Next (req\<lparr>req_user := Some decoded\<rparr>)))"

text \<open>The session lookup shared by the two key-based variants, with its \<^verbatim>\<open>try/catch\<close>.\<close>

definition session_lookup :: "database \<Rightarrow> nat \<Rightarrow> string \<Rightarrow> session option" where
  "session_lookup d now key =
     (case session_findFirst d key now of Inl e \<Rightarrow> None | Inr r \<Rightarrow> r)"

definition authenticateApiKey :: "config \<Rightarrow> database \<Rightarrow> nat \<Rightarrow> request \<Rightarrow> outcome" where
  "authenticateApiKey cfg d now req =
     (case x_api_key req of
        None \<Rightarrow> sendUnauthorized ''API key is required''
      | Some key \<Rightarrow>
          if key = [] then sendUnauthorized ''API key is required''
          else if apiKey cfg \<noteq> [] \<and> key = apiKey cfg
            then Next (req\<lparr>req_user := Some system_user\<rparr>)
          else (case session_lookup d now key of
                  Some s \<Rightarrow> Next (req\<lparr>req_user := Some (session_user s)\<rparr>)
                | None \<Rightarrow> sendUnauthorized ''Invalid API key''))"

text \<open>The second half of \<^verbatim>\<open>multiAuth\<close>, entered when the bearer token did not admit.\<close>

definition multiAuth_key :: "config \<Rightarrow> database \<Rightarrow> nat \<Rightarrow> request \<Rightarrow> outcome" where
  "multiAuth_key cfg d now req =
     (let failed = sendUnauthorized ''Authentication required. Provide JWT token or API key'' in
      case x_api_key req of
        None \<Rightarrow> failed
      | Some key \<Rightarrow>
          if key = [] then failed
          else if apiKey cfg \<noteq> [] \<and> key = apiKey cfg
            then Next (req\<lparr>req_user := Some system_user\<rparr>)
          else (case session_lookup d now key of
                  Some s \<Rightarrow> Next (req\<lparr>req_user := Some (session_user s)\<rparr>)
                | None \<Rightarrow> failed))"

definition multiAuth ::
  "jsonwebtoken \<Rightarrow> config \<Rightarrow> database \<Rightarrow> nat \<Rightarrow> request \<Rightarrow> outcome" where
  "multiAuth L cfg d now req =
     (case extractTokenFromHeader (authorization req) of
        None \<Rightarrow> multiAuth_key cfg d now req
      | Some tok \<Rightarrow>
          if tok = [] then multiAuth_key cfg d now req
          else (case verifyToken L cfg now tok of
                  Some decoded \<Rightarrow> Next (req\<lparr>req_user := Some decoded\<rparr>)
                | None \<Rightarrow> multiAuth_key cfg d now req))"

definition authorizeType :: "string list \<Rightarrow> request \<Rightarrow> outcome" where
  "authorizeType allowedTypes req =
     (case req_user req of
        None \<Rightarrow> sendUnauthorized ''Authentication required''
      | Some u \<Rightarrow>
          if \<exists>t \<in> set allowedTypes. map_of u ''type'' = Some (JStr t) then Next req
          else sendForbidden ''You do not have permission to access this resource'')"

definition authorizeRole :: "string list \<Rightarrow> request \<Rightarrow> outcome" where
  "authorizeRole allowedRoles req =
     (case req_user req of
        None \<Rightarrow> sendUnauthorized ''Authentication required''
      | Some u \<Rightarrow>
          if \<exists>r \<in> set allowedRoles. map_of u ''role'' = Some (JStr r) then Next req
          else sendForbidden ''You do not have permission to access this resource'')"

text \<open>\<^verbatim>\<open>String.prototype.includes\<close>: the text occurs somewhere in the string.\<close>

fun str_includes :: "string \<Rightarrow> string \<Rightarrow> bool" where
  "str_includes [] p = (p = [])"
| "str_includes (c # s) p = (take (length p) (c # s) = p \<or> str_includes s p)"

text \<open>
  \<^verbatim>\<open>permissions.includes(perm)\<close> on whatever the stored text parsed to: membership for an
  array, substring for a string, a \<^verbatim>\<open>TypeError\<close> for anything else.
\<close>

fun js_includes :: "json \<Rightarrow> string \<Rightarrow> error + bool" where
  "js_includes (JArr xs) perm = Inr (JStr perm \<in> set xs)"
| "js_includes (JStr s) perm = Inr (str_includes s perm)"
| "js_includes other perm = Inl TypeError"

text \<open>\<^verbatim>\<open>requiredPermissions.every((perm) => permissions.includes(perm))\<close>\<close>

fun every_includes :: "json \<Rightarrow> string list \<Rightarrow> error + bool" where
  "every_includes permissions [] = Inr True"
| "every_includes permissions (perm # rest) =
     (case js_includes permissions perm of
        Inl e \<Rightarrow> Inl e
      | Inr False \<Rightarrow> Inr False
      | Inr True \<Rightarrow> every_includes permissions rest)"

text \<open>\<^verbatim>\<open>text ? JSON.parse(text) : []\<close>, used wherever stored permissions are read.\<close>

definition parse_permissions :: "JSON \<Rightarrow> string option \<Rightarrow> error + json" where
  "parse_permissions J text =
     (case text of
        None \<Rightarrow> Inr (JArr [])
      | Some t \<Rightarrow> if t = [] then Inr (JArr []) else JSON_parse J t)"

definition authorizePermission :: "JSON \<Rightarrow> database \<Rightarrow> string list \<Rightarrow> request \<Rightarrow> outcome" where
  "authorizePermission J d requiredPermissions req =
     (case req_user req of
        None \<Rightarrow> sendUnauthorized ''Authentication required''
      | Some u \<Rightarrow>
          if map_of u ''role'' = Some (JStr ''api'') then Next req
          else (case (case map_of u ''id'' of
                        Some (JStr uid) \<Rightarrow> user_findUnique_role d uid
                      | other \<Rightarrow> Inl PrismaError) of
                  Inl e \<Rightarrow> sendForbidden ''Permission check failed''
                | Inr None \<Rightarrow> sendUnauthorized ''User not found''
                | Inr (Some (usr, None)) \<Rightarrow> sendForbidden ''Permission check failed''
                | Inr (Some (usr, Some r)) \<Rightarrow>
                    (case parse_permissions J (role_permissions r) of
                       Inl e \<Rightarrow> sendForbidden ''Permission check failed''
                     | Inr permissions \<Rightarrow>
                         (case every_includes permissions requiredPermissions of
                            Inl e \<Rightarrow> sendForbidden ''Permission check failed''
                          | Inr False \<Rightarrow> sendForbidden ''Insufficient permissions''
                          | Inr True \<Rightarrow> Next req))))"

definition optionalAuth :: "jsonwebtoken \<Rightarrow> config \<Rightarrow> nat \<Rightarrow> request \<Rightarrow> outcome" where
  "optionalAuth L cfg now req =
     (case extractTokenFromHeader (authorization req) of
        None \<Rightarrow> Next req
      | Some tok \<Rightarrow>
          if tok = [] then Next req
          else (case verifyToken L cfg now tok of
                  None \<Rightarrow> Next req
                | Some decoded \<Rightarrow> Next (req\<lparr>req_user := Some decoded\<rparr>)))"

section \<open>Queries of the store\<close>

text \<open>
  Modelled from the spec: the persistence collaborator (the client of the store) is
  missing from the sources. Its calls are atomic and enforce the declared constraints.
  Each query throws (\<open>Inl PrismaError\<close>) while the store is down. \<^verbatim>\<open>update\<close> and
  \<^verbatim>\<open>delete\<close> throw when no row has the id; \<^verbatim>\<open>create\<close> throws on a uniqueness
  violation; a user row cannot be made to reference a role that does not exist.
\<close>

definition role_findFirst :: "database \<Rightarrow> (role \<Rightarrow> bool) \<Rightarrow> error + role option" where
  "role_findFirst d P = (if db_down d then Inl PrismaError else Inr (find P (roles d)))"

definition role_findUnique :: "database \<Rightarrow> string \<Rightarrow> error + role option" where
  "role_findUnique d rid = role_findFirst d (\<lambda>r. role_id r = rid)"

definition role_userCount :: "database \<Rightarrow> string \<Rightarrow> nat" where
  "role_userCount d rid = length (filter (\<lambda>u. user_roleId u = rid) (users d))"

definition role_create :: "database \<Rightarrow> role \<Rightarrow> error + database" where
  "role_create d r =
     (if db_down d then Inl PrismaError
      else if \<exists>x \<in> set (roles d). role_id x = role_id r \<or> role_slug x = role_slug r
        then Inl PrismaError
      else Inr (d\<lparr>roles := roles d @ [r]\<rparr>))"

definition role_update :: "database \<Rightarrow> string \<Rightarrow> (role \<Rightarrow> role) \<Rightarrow> error + database" where
  "role_update d rid f =
     (if db_down d then Inl PrismaError
      else if \<not> (\<exists>x \<in> set (roles d). role_id x = rid) then Inl PrismaError
      else Inr (d\<lparr>roles := map (\<lambda>x. if role_id x = rid then f x else x) (roles d)\<rparr>))"

definition role_updateMany ::
  "database \<Rightarrow> (role \<Rightarrow> bool) \<Rightarrow> (role \<Rightarrow> role) \<Rightarrow> error + database" where
  "role_updateMany d P f =
     (if db_down d then Inl PrismaError
      else Inr (d\<lparr>roles := map (\<lambda>x. if P x then f x else x) (roles d)\<rparr>))"

definition role_delete :: "database \<Rightarrow> string \<Rightarrow> error + database" where
  "role_delete d rid =
     (if db_down d then Inl PrismaError
      else if \<not> (\<exists>x \<in> set (roles d). role_id x = rid) then Inl PrismaError
      else if role_userCount d rid > 0 then Inl PrismaError
      else Inr (d\<lparr>roles := filter (\<lambda>x. role_id x \<noteq> rid) (roles d)\<rparr>))"

definition admin_findUnique :: "database \<Rightarrow> (admin \<Rightarrow> bool) \<Rightarrow> error + admin option" where
  "admin_findUnique d P = (if db_down d then Inl PrismaError else Inr (find P (admins d)))"

definition admin_create :: "database \<Rightarrow> admin \<Rightarrow> error + database" where
  "admin_create d a =
     (if db_down d then Inl PrismaError
      else if \<exists>x \<in> set (admins d). admin_id x = admin_id a \<or> admin_email x = admin_email a
        then Inl PrismaError
      else Inr (d\<lparr>admins := admins d @ [a]\<rparr>))"

definition admin_update :: "database \<Rightarrow> string \<Rightarrow> (admin \<Rightarrow> admin) \<Rightarrow> error + database" where
  "admin_update d aid f =
     (if db_down d then Inl PrismaError
      else if \<not> (\<exists>x \<in> set (admins d). admin_id x = aid) then Inl PrismaError
      else Inr (d\<lparr>admins := map (\<lambda>x. if admin_id x = aid then f x else x) (admins d)\<rparr>))"

definition admin_delete :: "database \<Rightarrow> string \<Rightarrow> error + database" where
  "admin_delete d aid =
     (if db_down d then Inl PrismaError
      else if \<not> (\<exists>x \<in> set (admins d). admin_id x = aid) then Inl PrismaError
      else Inr (d\<lparr>admins := filter (\<lambda>x. admin_id x \<noteq> aid) (admins d)\<rparr>))"

definition user_findUnique :: "database \<Rightarrow> (user \<Rightarrow> bool) \<Rightarrow> error + user option" where
  "user_findUnique d P = (if db_down d then Inl PrismaError else Inr (find P (users d)))"

definition user_create :: "database \<Rightarrow> user \<Rightarrow> error + database" where
  "user_create d u =
     (if db_down d then Inl PrismaError
      else if \<exists>x \<in> set (users d). user_id x = user_id u \<or> user_email x = user_email u
        then Inl PrismaError
      else if \<not> (\<exists>r \<in> set (roles d). role_id r = user_roleId u) then Inl PrismaError
      else Inr (d\<lparr>users := users d @ [u]\<rparr>))"

definition user_update :: "database \<Rightarrow> string \<Rightarrow> (user \<Rightarrow> user) \<Rightarrow> error + database" where
  "user_update d uid f =
     (if db_down d then Inl PrismaError
      else case find (\<lambda>x. user_id x = uid) (users d) of
        None \<Rightarrow> Inl PrismaError
      | Some u \<Rightarrow>
          if user_roleId (f u) \<noteq> user_roleId u
             \<and> \<not> (\<exists>r \<in> set (roles d). role_id r = user_roleId (f u))
            then Inl PrismaError
          else Inr (d\<lparr>users := map (\<lambda>x. if user_id x = uid then f x else x) (users d)\<rparr>))"

definition user_delete :: "database \<Rightarrow> string \<Rightarrow> error + database" where
  "user_delete d uid =
     (if db_down d then Inl PrismaError
      else if \<not> (\<exists>x \<in> set (users d). user_id x = uid) then Inl PrismaError
      else Inr (d\<lparr>users := filter (\<lambda>x. user_id x \<noteq> uid) (users d)\<rparr>))"

section \<open>The entity services\<close>

text \<open>
  A service works on the store and on the cache. \<open>trace\<close> records, in the order they
  happen, each write the store accepted and each invalidation passed to the cache service.
\<close>

datatype effect = Persisted string | CacheDelete string | CacheDeletePattern string

record world =
  db :: database
  cache :: RedisClient
  trace :: "effect list"

definition persisted :: "string \<Rightarrow> world \<Rightarrow> database \<Rightarrow> world" where
  "persisted what w d = w\<lparr>db := d, trace := trace w @ [Persisted what]\<rparr>"

definition invalidate :: "world \<Rightarrow> string \<Rightarrow> world" where
  "invalidate w key =
     w\<lparr>cache := cache_delete (cache w) key, trace := trace w @ [CacheDelete key]\<rparr>"

definition invalidatePattern :: "world \<Rightarrow> nat \<Rightarrow> string \<Rightarrow> world" where
  "invalidatePattern w now pattern =
     w\<lparr>cache := cache_deletePattern (cache w) now pattern,
       trace := trace w @ [CacheDeletePattern pattern]\<rparr>"

definition stringify_permissions :: "JSON \<Rightarrow> string list option \<Rightarrow> string option" where
  "stringify_permissions J ps =
     (case ps of None \<Rightarrow> None | Some xs \<Rightarrow> Some (JSON_stringify J (JArr (map JStr xs))))"

subsection \<open>services/role.service.ts\<close>

record CreateRoleDto =
  cr_name :: string
  cr_slug :: string
  cr_description :: "string option"
  cr_permissions :: "string list option"
  cr_isDefault :: "bool option"

record UpdateRoleDto =
  ur_name :: "string option"
  ur_description :: "string option"
  ur_permissions :: "string list option"
  ur_isActive :: "bool option"

text \<open>\<^verbatim>\<open>{...role, permissions: role.permissions ? JSON.parse(role.permissions) : []}\<close>\<close>

definition role_view :: "JSON \<Rightarrow> role \<Rightarrow> error + role \<times> json" where
  "role_view J r =
     (case parse_permissions J (role_permissions r) of
        Inl e \<Rightarrow> Inl e
      | Inr ps \<Rightarrow> Inr (r, ps))"

definition opt_json :: "string option \<Rightarrow> json" where
  "opt_json x = (case x of None \<Rightarrow> JNull | Some s \<Rightarrow> JStr s)"

text \<open>
  \<^verbatim>\<open>{...role, permissions: ..., userCount: role._count.users}\<close> for a role found with
  \<^verbatim>\<open>include: {_count: {select: {users: true}}}\<close>: the row's columns, the parsed
  permissions in the place of the stored text, the \<^verbatim>\<open>_count\<close> the query added, and the
  count once more as \<^verbatim>\<open>userCount\<close>.
\<close>

definition role_json :: "role \<Rightarrow> json \<Rightarrow> nat \<Rightarrow> json" where
  "role_json r ps n =
     JObj [(''id'', JStr (role_id r)), (''name'', JStr (role_name r)),
           (''slug'', JStr (role_slug r)), (''description'', opt_json (role_description r)),
           (''permissions'', ps), (''isDefault'', JBool (role_isDefault r)),
           (''isActive'', JBool (role_isActive r)),
           (''_count'', JObj [(''users'', JNum (int n))]), (''userCount'', JNum (int n))]"

text \<open>
  \<open>newId\<close> is the id the store generates for the new row. A new role is active (the
  column default).
\<close>

definition RoleService_create ::
  "JSON \<Rightarrow> world \<Rightarrow> nat \<Rightarrow> string \<Rightarrow> CreateRoleDto \<Rightarrow> (error + role \<times> json) \<times> world" where
  "RoleService_create J w now newId data =
     (case role_findFirst (db w) (\<lambda>r. role_name r = cr_name data \<or> role_slug r = cr_slug data) of
        Inl e \<Rightarrow> (Inl e, w)
      | Inr (Some existingRole) \<Rightarrow>
          (Inl (ApiError ''Role with this name or slug already exists'' 400), w)
      | Inr None \<Rightarrow>
          (let r = \<lparr>role_id = newId, role_name = cr_name data, role_slug = cr_slug data,
                    role_description = cr_description data,
                    role_permissions = stringify_permissions J (cr_permissions data),
                    role_isDefault = (case cr_isDefault data of None \<Rightarrow> False | Some b \<Rightarrow> b),
                    role_isActive = True\<rparr>
           in case role_create (db w) r of
                Inl e \<Rightarrow> (Inl e, w)
              | Inr d \<Rightarrow>
                  (role_view J r, invalidatePattern (persisted ''role.create'' w d) now ''roles:*'')))"

definition RoleService_getById ::
  "JSON \<Rightarrow> config \<Rightarrow> world \<Rightarrow> nat \<Rightarrow> string \<Rightarrow> (error + json) \<times> world" where
  "RoleService_getById J cfg w now rid =
     (case getOrSet J cfg (cache w) now (''role:'' @ rid)
             (\<lambda>_. case role_findUnique (db w) rid of
                     Inl e \<Rightarrow> Inl e
                   | Inr None \<Rightarrow> Inl (ApiError ''Role not found'' 404)
                   | Inr (Some r) \<Rightarrow>
                       (case parse_permissions J (role_permissions r) of
                          Inl e \<Rightarrow> Inl e
                        | Inr ps \<Rightarrow> Inr (role_json r ps (role_userCount (db w) rid))))
             None of
        (res, c, n) \<Rightarrow> (res, w\<lparr>cache := c\<rparr>))"

definition RoleService_getDefaultRole :: "world \<Rightarrow> error + role option" where
  "RoleService_getDefaultRole w = role_findFirst (db w) (\<lambda>r. role_isDefault r \<and> role_isActive r)"

definition apply_UpdateRoleDto :: "JSON \<Rightarrow> UpdateRoleDto \<Rightarrow> role \<Rightarrow> role" where
  "apply_UpdateRoleDto J data r =
     r\<lparr>role_name := (case ur_name data of None \<Rightarrow> role_name r | Some n \<Rightarrow> n),
       role_description :=
         (case ur_description data of None \<Rightarrow> role_description r | Some x \<Rightarrow> Some x),
       role_permissions :=
         (case ur_permissions data of
            None \<Rightarrow> role_permissions r
          | Some ps \<Rightarrow> stringify_permissions J (Some ps)),
       role_isActive := (case ur_isActive data of None \<Rightarrow> role_isActive r | Some b \<Rightarrow> b)\<rparr>"

definition RoleService_update ::
  "JSON \<Rightarrow> world \<Rightarrow> nat \<Rightarrow> string \<Rightarrow> UpdateRoleDto \<Rightarrow> (error + role \<times> json) \<times> world" where
  "RoleService_update J w now rid data =
     (case role_update (db w) rid (apply_UpdateRoleDto J data) of
        Inl e \<Rightarrow> (Inl e, w)
      | Inr d \<Rightarrow>
          (let w1 = persisted ''role.update'' w d;
               w2 = invalidate w1 (''role:'' @ rid);
               w3 = invalidatePattern w2 now ''roles:*''
           in case find (\<lambda>r. role_id r = rid) (roles d) of
                None \<Rightarrow> (Inl PrismaError, w3)
              | Some r \<Rightarrow> (role_view J r, w3)))"

definition RoleService_delete ::
  "world \<Rightarrow> nat \<Rightarrow> string \<Rightarrow> (error + string) \<times> world" where
  "RoleService_delete w now rid =
     (case role_findUnique (db w) rid of
        Inl e \<Rightarrow> (Inl e, w)
      | Inr None \<Rightarrow> (Inl (ApiError ''Role not found'' 404), w)
      | Inr (Some r) \<Rightarrow>
          if role_userCount (db w) rid > 0
            then (Inl (ApiError ''Cannot delete role with assigned users'' 400), w)
          else (case role_delete (db w) rid of
                  Inl e \<Rightarrow> (Inl e, w)
                | Inr d \<Rightarrow>
                    (let w1 = persisted ''role.delete'' w d;
                         w2 = invalidate w1 (''role:'' @ rid);
                         w3 = invalidatePattern w2 now ''roles:*''
                     in (Inr ''Role deleted successfully'', w3))))"

definition RoleService_setDefault ::
  "world \<Rightarrow> nat \<Rightarrow> string \<Rightarrow> (error + role) \<times> world" where
  "RoleService_setDefault w now rid =
     (case role_updateMany (db w) role_isDefault (\<lambda>r. r\<lparr>role_isDefault := False\<rparr>) of
        Inl e \<Rightarrow> (Inl e, w)
      | Inr d1 \<Rightarrow>
          (let w1 = persisted ''role.updateMany'' w d1 in
           case role_update d1 rid (\<lambda>r. r\<lparr>role_isDefault := True\<rparr>) of
             Inl e \<Rightarrow> (Inl e, w1)
           | Inr d2 \<Rightarrow>
               (let w2 = persisted ''role.update'' w1 d2;
                    w3 = invalidatePattern w2 now ''roles:*''
                in case find (\<lambda>r. role_id r = rid) (roles d2) of
                     None \<Rightarrow> (Inl PrismaError, w3)
                   | Some r \<Rightarrow> (Inr r, w3))))"

subsection \<open>services/admin.service.ts\<close>

record CreateAdminDto =
  ca_email :: string
  ca_password :: string
  ca_name :: string
  ca_phone :: "string option"
  ca_role :: "string option"
  ca_permissions :: "string list option"

record UpdateAdminDto =
  ua_name :: "string option"
  ua_phone :: "string option"
  ua_avatar :: "string option"
  ua_permissions :: "string list option"

text \<open>
  \<open>hashPassword\<close> (utils/password.util.ts) is a parameter. A new admin is active and,
  with no role given, an \<^verbatim>\<open>ADMIN\<close> (the column defaults).
\<close>

definition AdminService_create ::
  "JSON \<Rightarrow> (string \<Rightarrow> string) \<Rightarrow> world \<Rightarrow> nat \<Rightarrow> string \<Rightarrow> CreateAdminDto
     \<Rightarrow> (error + admin) \<times> world" where
  "AdminService_create J hashPassword w now newId data =
     (case admin_findUnique (db w) (\<lambda>a. admin_email a = ca_email data) of
        Inl e \<Rightarrow> (Inl e, w)
      | Inr (Some existingAdmin) \<Rightarrow>
          (Inl (ApiError ''Admin with this email already exists'' 400), w)
      | Inr None \<Rightarrow>
          (let a = \<lparr>admin_id = newId, admin_email = ca_email data,
                    admin_password = hashPassword (ca_password data),
                    admin_name = ca_name data, admin_phone = ca_phone data,
                    admin_avatar = None,
                    admin_role = (case ca_role data of None \<Rightarrow> ''ADMIN'' | Some r \<Rightarrow> r),
                    admin_permissions = stringify_permissions J (ca_permissions data),
                    admin_isActive = True\<rparr>
           in case admin_create (db w) a of
                Inl e \<Rightarrow> (Inl e, w)
              | Inr d \<Rightarrow>
                  (Inr a, invalidatePattern (persisted ''admin.create'' w d) now ''admins:*'')))"

definition apply_UpdateAdminDto :: "JSON \<Rightarrow> UpdateAdminDto \<Rightarrow> admin \<Rightarrow> admin" where
  "apply_UpdateAdminDto J data a =
     a\<lparr>admin_name := (case ua_name data of None \<Rightarrow> admin_name a | Some n \<Rightarrow> n),
       admin_phone := (case ua_phone data of None \<Rightarrow> admin_phone a | Some x \<Rightarrow> Some x),
       admin_avatar := (case ua_avatar data of None \<Rightarrow> admin_avatar a | Some x \<Rightarrow> Some x),
       admin_permissions :=
         (case ua_permissions data of
            None \<Rightarrow> admin_permissions a
          | Some ps \<Rightarrow> stringify_permissions J (Some ps))\<rparr>"

definition AdminService_update ::
  "JSON \<Rightarrow> world \<Rightarrow> string \<Rightarrow> UpdateAdminDto \<Rightarrow> (error + admin \<times> json) \<times> world" where
  "AdminService_update J w aid data =
     (case admin_update (db w) aid (apply_UpdateAdminDto J data) of
        Inl e \<Rightarrow> (Inl e, w)
      | Inr d \<Rightarrow>
          (let w1 = persisted ''admin.update'' w d;
               w2 = invalidate w1 (''admin:'' @ aid)
           in case find (\<lambda>a. admin_id a = aid) (admins d) of
                None \<Rightarrow> (Inl PrismaError, w2)
              | Some a \<Rightarrow>
                  (case parse_permissions J (admin_permissions a) of
                     Inl e \<Rightarrow> (Inl e, w2)
                   | Inr ps \<Rightarrow> (Inr (a, ps), w2))))"

definition AdminService_delete ::
  "world \<Rightarrow> nat \<Rightarrow> string \<Rightarrow> (error + string) \<times> world" where
  "AdminService_delete w now aid =
     (case admin_delete (db w) aid of
        Inl e \<Rightarrow> (Inl e, w)
      | Inr d \<Rightarrow>
          (let w1 = persisted ''admin.delete'' w d;
               w2 = invalidate w1 (''admin:'' @ aid);
               w3 = invalidatePattern w2 now ''admins:*''
           in (Inr ''Admin deleted successfully'', w3)))"

definition AdminService_toggleUserStatus ::
  "world \<Rightarrow> string \<Rightarrow> (error + user) \<times> world" where
  "AdminService_toggleUserStatus w userId =
     (case user_findUnique (db w) (\<lambda>u. user_id u = userId) of
        Inl e \<Rightarrow> (Inl e, w)
      | Inr None \<Rightarrow> (Inl (ApiError ''User not found'' 404), w)
      | Inr (Some u) \<Rightarrow>
          (case user_update (db w) userId (\<lambda>x. x\<lparr>user_isActive := \<not> user_isActive u\<rparr>) of
             Inl e \<Rightarrow> (Inl e, w)
           | Inr d \<Rightarrow>
               (let w1 = persisted ''user.update'' w d;
                    w2 = invalidate w1 (''user:'' @ userId)
                in (Inr (u\<lparr>user_isActive := \<not> user_isActive u\<rparr>), w2))))"

subsection \<open>services/user.service.ts\<close>

record CreateUserDto =
  cu_email :: string
  cu_password :: string
  cu_name :: string
  cu_phone :: "string option"
  cu_roleId :: "string option"

record UpdateUserDto =
  uu_name :: "string option"
  uu_phone :: "string option"
  uu_avatar :: "string option"
  uu_roleId :: "string option"

text \<open>\<^verbatim>\<open>let roleId = data.roleId; if (!roleId) { ... default role ... }\<close>\<close>

definition resolve_roleId :: "world \<Rightarrow> string option \<Rightarrow> error + string" where
  "resolve_roleId w given =
     (let dflt = (case RoleService_getDefaultRole w of
                    Inl e \<Rightarrow> Inl e
                  | Inr None \<Rightarrow>
                      Inl (ApiError
                        ''No default role found. Please create a default role first.'' 400)
                  | Inr (Some r) \<Rightarrow> Inr (role_id r))
      in case given of
           None \<Rightarrow> dflt
         | Some r \<Rightarrow> if r = [] then dflt else Inr r)"

definition UserService_create ::
  "(string \<Rightarrow> string) \<Rightarrow> world \<Rightarrow> nat \<Rightarrow> string \<Rightarrow> CreateUserDto \<Rightarrow> (error + user) \<times> world" where
  "UserService_create hashPassword w now newId data =
     (case user_findUnique (db w) (\<lambda>u. user_email u = cu_email data) of
        Inl e \<Rightarrow> (Inl e, w)
      | Inr (Some existingUser) \<Rightarrow>
          (Inl (ApiError ''User with this email already exists'' 400), w)
      | Inr None \<Rightarrow>
          (case resolve_roleId w (cu_roleId data) of
             Inl e \<Rightarrow> (Inl e, w)
           | Inr roleId \<Rightarrow>
               (let u = \<lparr>user_id = newId, user_email = cu_email data,
                         user_password = hashPassword (cu_password data),
                         user_name = cu_name data, user_phone = cu_phone data,
                         user_avatar = None, user_roleId = roleId, user_isActive = True\<rparr>
                in case user_create (db w) u of
                     Inl e \<Rightarrow> (Inl e, w)
                   | Inr d \<Rightarrow>
                       (Inr u,
                        invalidatePattern (persisted ''user.create'' w d) now ''users:*''))))"

definition apply_UpdateUserDto :: "UpdateUserDto \<Rightarrow> user \<Rightarrow> user" where
  "apply_UpdateUserDto data u =
     u\<lparr>user_name := (case uu_name data of None \<Rightarrow> user_name u | Some n \<Rightarrow> n),
       user_phone := (case uu_phone data of None \<Rightarrow> user_phone u | Some x \<Rightarrow> Some x),
       user_avatar := (case uu_avatar data of None \<Rightarrow> user_avatar u | Some x \<Rightarrow> Some x),
       user_roleId := (case uu_roleId data of None \<Rightarrow> user_roleId u | Some r \<Rightarrow> r)\<rparr>"

definition UserService_update ::
  "world \<Rightarrow> string \<Rightarrow> UpdateUserDto \<Rightarrow> (error + user) \<times> world" where
  "UserService_update w uid data =
     (case user_update (db w) uid (apply_UpdateUserDto data) of
        Inl e \<Rightarrow> (Inl e, w)
      | Inr d \<Rightarrow>
          (let w1 = persisted ''user.update'' w d;
               w2 = invalidate w1 (''user:'' @ uid)
           in case find (\<lambda>u. user_id u = uid) (users d) of
                None \<Rightarrow> (Inl PrismaError, w2)
              | Some u \<Rightarrow> (Inr u, w2)))"

definition UserService_delete ::
  "world \<Rightarrow> nat \<Rightarrow> string \<Rightarrow> (error + string) \<times> world" where
  "UserService_delete w now uid =
     (case user_delete (db w) uid of
        Inl e \<Rightarrow> (Inl e, w)
      | Inr d \<Rightarrow>
          (let w1 = persisted ''user.delete'' w d;
               w2 = invalidate w1 (''user:'' @ uid);
               w3 = invalidatePattern w2 now ''users:*''
           in (Inr ''User deleted successfully'', w3)))"

definition UserService_changeRole ::
  "JSON \<Rightarrow> config \<Rightarrow> world \<Rightarrow> nat \<Rightarrow> string \<Rightarrow> string \<Rightarrow> (error + user) \<times> world" where
  "UserService_changeRole J cfg w now userId roleId =
     (case RoleService_getById J cfg w now roleId of
        (Inl e, w0) \<Rightarrow> (Inl e, w0)
      | (Inr found, w0) \<Rightarrow>
          (case user_update (db w0) userId (\<lambda>u. u\<lparr>user_roleId := roleId\<rparr>) of
             Inl e \<Rightarrow> (Inl e, w0)
           | Inr d \<Rightarrow>
               (let w1 = persisted ''user.update'' w0 d;
                    w2 = invalidate w1 (''user:'' @ userId)
                in case find (\<lambda>u. user_id u = userId) (users d) of
                     None \<Rightarrow> (Inl PrismaError, w2)
                   | Some u \<Rightarrow> (Inr u, w2))))"

section \<open>Concrete collaborators for the examples\<close>

text \<open>
  A JSON codec that knows finitely many texts: it serialises a listed value to its text,
  parses a listed text to its value and rejects every other text.
\<close>

definition table_JSON :: "(string \<times> json) list \<Rightarrow> JSON" where
  "table_JSON tbl =
     \<lparr>JSON_stringify = (\<lambda>v. case find (\<lambda>tv. snd tv = v) tbl of
                                None \<Rightarrow> ''null''
                              | Some tv \<Rightarrow> fst tv),
      JSON_parse = (\<lambda>t. case map_of tbl t of None \<Rightarrow> Inl SyntaxError | Some v \<Rightarrow> Inr v)\<rparr>"

definition ex_cache :: RedisClient where
  "ex_cache = \<lparr>isConnected = True, faulty = False, entries = []\<rparr>"

definition ex_offline :: RedisClient where
  "ex_offline = \<lparr>isConnected = False, faulty = True, entries = [(''k'', ''7'', None)]\<rparr>"

definition ex_JSON :: JSON where
  "ex_JSON =
     table_JSON [(''false'', JBool False), (''7'', JNum 7), (''8'', JNum 8),
                 (''[\"read:users\"]'', JArr [JStr ''read:users''])]"

definition ex_config :: config where
  "ex_config =
     \<lparr>jwt_secret = ''s3cret'', jwt_expiresIn = 60, apiKey = ''static-key'', cache_ttl = 3600\<rparr>"

definition produce :: "json \<Rightarrow> unit \<Rightarrow> error + json" where
  "produce v = (\<lambda>u. Inr v)"

section \<open>The order of effects\<close>

text \<open>What a run from \<open>w\<close> to \<open>w'\<close> added to the trace.\<close>

definition effects_since :: "world \<Rightarrow> world \<Rightarrow> effect list" where
  "effects_since w w' = drop (length (trace w)) (trace w')"

section \<open>Example data\<close>

definition ex_claims :: JwtPayload where
  "ex_claims = \<lparr>payload_id = ''u1'', payload_email = ''alice@example.com'', payload_role = ''user'',
      payload_roleId = Some ''r1'', payload_type = User\<rparr>"

text \<open>
  Primitives that know one claim set, the one signed for \<open>ex_claims\<close> at time 100: its
  text is \<open>claims-1\<close> and its tag under the configured secret is \<open>mac1\<close>; every other
  tag is \<open>mac0\<close>.
\<close>

definition ex_signed :: object where
  "ex_signed = payload_object ex_claims @ [(''iat'', JNum 100), (''exp'', JNum 160)]"

definition ex_primitives :: jwt_primitives where
  "ex_primitives =
     \<lparr>hmac = (\<lambda>k m. if k = ''s3cret'' \<and> m = ''claims-1'' then ''mac1'' else ''mac0''),
      encode_claims = (\<lambda>cs. if cs = ex_signed then ''claims-1'' else ''claims-0''),
      decode_claims = (\<lambda>s. if s = ''claims-1'' then Some ex_signed else None)\<rparr>"

definition ex_jwt :: jsonwebtoken where
  "ex_jwt = spec_jwt ex_primitives"

definition ex_role :: role where
  "ex_role = \<lparr>role_id = ''r1'', role_name = ''User'', role_slug = ''user'', role_description = None,
     role_permissions = Some ''[\"read:users\"]'', role_isDefault = True, role_isActive = True\<rparr>"

definition ex_user :: user where
  "ex_user = \<lparr>user_id = ''u1'', user_email = ''alice@example.com'', user_password = ''h'',
     user_name = ''Alice'', user_phone = None, user_avatar = None, user_roleId = ''r1'',
     user_isActive = True\<rparr>"

definition ex_session :: session where
  "ex_session = \<lparr>session_token = ''session-key'', session_userId = ''u1'',
     session_userType = ''user'', session_expiresAt = 500\<rparr>"

definition ex_db :: database where
  "ex_db = \<lparr>db_down = False, roles = [ex_role], users = [ex_user], admins = [],
     sessions = [ex_session]\<rparr>"

definition ex_request :: "string option \<Rightarrow> string option \<Rightarrow> request" where
  "ex_request auth key = \<lparr>authorization = auth, x_api_key = key, req_user = None\<rparr>"

definition ex_principal :: "string \<Rightarrow> string \<Rightarrow> object" where
  "ex_principal uid r =
     [(''id'', JStr uid), (''email'', JStr ''alice@example.com''), (''role'', JStr r),
      (''type'', JStr ''user'')]"

definition ex_authed :: "object \<Rightarrow> request" where
  "ex_authed u = \<lparr>authorization = None, x_api_key = None, req_user = Some u\<rparr>"

definition ex_orphan :: user where
  "ex_orphan = ex_user\<lparr>user_id := ''u2'', user_email := ''bob@example.com'', user_roleId := ''gone''\<rparr>"

definition ex_config_nokey :: config where
  "ex_config_nokey = ex_config\<lparr>apiKey := []\<rparr>"

definition ex_admin :: admin where
  "ex_admin = \<lparr>admin_id = ''a1'', admin_email = ''root@example.com'', admin_password = ''h'',
     admin_name = ''Root'', admin_phone = None, admin_avatar = None, admin_role = ''SUPER_ADMIN'',
     admin_permissions = None, admin_isActive = True\<rparr>"

definition ex_editor :: role where
  "ex_editor = \<lparr>role_id = ''r2'', role_name = ''Editor'', role_slug = ''editor'',
     role_description = None, role_permissions = None, role_isDefault = False,
     role_isActive = True\<rparr>"

definition ex_world :: world where
  "ex_world =
     \<lparr>db = ex_db\<lparr>roles := [ex_role, ex_editor], admins := [ex_admin]\<rparr>,
      cache = ex_cache\<lparr>entries := [(''admins:page:1'', ''7'', None), (''role:r2'', ''8'', None)]\<rparr>,
      trace = []\<rparr>"

definition ex_rename_admin :: UpdateAdminDto where
  "ex_rename_admin = \<lparr>ua_name = Some ''Admin'', ua_phone = None, ua_avatar = None,
     ua_permissions = None\<rparr>"

definition ex_rename_role :: UpdateRoleDto where
  "ex_rename_role = \<lparr>ur_name = Some ''Writer'', ur_description = None, ur_permissions = None,
     ur_isActive = None\<rparr>"

definition ex_new_default :: CreateRoleDto where
  "ex_new_default = \<lparr>cr_name = ''Guest'', cr_slug = ''guest'', cr_description = None,
     cr_permissions = None, cr_isDefault = Some True\<rparr>"

text \<open>
  A store that was read and listed before it was written: the world of \<open>ex_world\<close> with
  an empty cache, a codec that knows the role \<open>r2\<close> as \<open>getById\<close> returns it and the
  listing of the roles before and after \<open>r2\<close> is renamed.
\<close>

definition ex_fresh_world :: world where
  "ex_fresh_world = ex_world\<lparr>cache := ex_cache\<rparr>"

definition ex_listing_before :: json where
  "ex_listing_before = JArr [JStr ''User'', JStr ''Editor'']"

definition ex_listing_after :: json where
  "ex_listing_after = JArr [JStr ''User'', JStr ''Writer'']"

definition ex_role_JSON :: JSON where
  "ex_role_JSON =
     table_JSON [(''roles-before'', ex_listing_before), (''roles-after'', ex_listing_after),
                 (''role-r2'', role_json ex_editor (JArr []) 0)]"

definition respond :: "json \<Rightarrow> unit \<Rightarrow> nat \<times> json" where
  "respond body = (\<lambda>u. (200, body))"

definition ex_after_read :: world where
  "ex_after_read = snd (RoleService_getById ex_role_JSON ex_config ex_fresh_world 100 ''r2'')"

definition ex_after_setDefault :: world where
  "ex_after_setDefault = snd (RoleService_setDefault ex_after_read 101 ''r2'')"

definition ex_after_list :: world where
  "ex_after_list =
     ex_fresh_world\<lparr>cache := snd (cacheMiddleware ex_role_JSON ex_config ex_cache 100 (Some 300)
                                  ''GET'' ''/api/roles'' (respond ex_listing_before))\<rparr>"

definition ex_after_update :: world where
  "ex_after_update = snd (RoleService_update ex_role_JSON ex_after_list 101 ''r2'' ex_rename_role)"

section \<open>The cache-aside contract\<close>

lemma cache_get_after_set:
  assumes "isReady c" "\<not> faulty c"
    and "JSON_parse J (JSON_stringify J v) = Inr v" "JSON_stringify J v \<noteq> []"
    and "0 \<le> ttl_or_default ttl (cache_ttl cfg)"
    and "ttl_or_default ttl (cache_ttl cfg) = 0
         \<or> int now < int t0 + ttl_or_default ttl (cache_ttl cfg)"
  shows "cache_get J (cache_set J cfg c t0 key v ttl) now key = v"
proof (cases "ttl_or_default ttl (cache_ttl cfg) = 0")
  case True
  with assms(1-4) show ?thesis
    by (simp add: cache_get_def cache_set_def redis_set_def redis_get_def isReady_def
        update_conv' live_def)
next
  case False
  with assms(5,6) have "now < t0 + nat (ttl_or_default ttl (cache_ttl cfg))"
    by linarith
  with False assms(1-5) show ?thesis
    by (simp add: cache_get_def cache_set_def redis_set_def redis_get_def isReady_def
        update_conv' live_def)
qed

lemma redis_get_after_set:
  assumes "isReady c" "\<not> faulty c" "0 \<le> ttl_or_default ttl (cache_ttl cfg)"
  shows "redis_get (cache_set J cfg c now key d ttl) now key = Inr (Some (JSON_stringify J d))"
  using assms
  by (simp add: cache_set_def redis_set_def redis_get_def isReady_def update_conv' live_def)

text \<open>
  C1, as amended. With the cache ready, its commands succeeding and the effective TTL not
  negative: a value \<open>v\<close> that is truthy and survives serialisation, stored under \<open>key\<close>
  at time \<open>t0\<close> and read before its expiry, is returned by \<open>getOrSet\<close> with the cache
  unchanged and the producer not invoked. On a miss the producer is invoked exactly once;
  if it succeeds, its result is returned and is by then stored under \<open>key\<close>; if it fails,
  its error is returned and the cache is unchanged.
\<close>

theorem getOrSet_cache_aside:
  assumes "isReady c" "\<not> faulty c" "0 \<le> ttl_or_default ttl (cache_ttl cfg)"
  shows "(truthy v \<and> JSON_parse J (JSON_stringify J v) = Inr v \<and> JSON_stringify J v \<noteq> []
            \<and> (ttl_or_default ttl (cache_ttl cfg) = 0
                \<or> int now < int t0 + ttl_or_default ttl (cache_ttl cfg))
          \<longrightarrow> getOrSet J cfg (cache_set J cfg c t0 key v ttl) now key fetcher ttl'
                = (Inr v, cache_set J cfg c t0 key v ttl, 0))
       \<and> (\<not> truthy (cache_get J c now key) \<and> fetcher () = Inr d
          \<longrightarrow> getOrSet J cfg c now key fetcher ttl = (Inr d, cache_set J cfg c now key d ttl, 1)
              \<and> redis_get (cache_set J cfg c now key d ttl) now key
                  = Inr (Some (JSON_stringify J d)))
       \<and> (\<not> truthy (cache_get J c now key) \<and> fetcher () = Inl e
          \<longrightarrow> getOrSet J cfg c now key fetcher ttl = (Inl e, c, 1))"
proof (intro conjI impI)
  assume h: "truthy v \<and> JSON_parse J (JSON_stringify J v) = Inr v \<and> JSON_stringify J v \<noteq> []
            \<and> (ttl_or_default ttl (cache_ttl cfg) = 0
                \<or> int now < int t0 + ttl_or_default ttl (cache_ttl cfg))"
  then have "cache_get J (cache_set J cfg c t0 key v ttl) now key = v"
    using assms cache_get_after_set by blast
  with h show "getOrSet J cfg (cache_set J cfg c t0 key v ttl) now key fetcher ttl'
                = (Inr v, cache_set J cfg c t0 key v ttl, 0)"
    by (simp add: getOrSet_def)
next
  assume "\<not> truthy (cache_get J c now key) \<and> fetcher () = Inr d"
  then show "getOrSet J cfg c now key fetcher ttl = (Inr d, cache_set J cfg c now key d ttl, 1)"
    by (simp add: getOrSet_def)
next
  show "redis_get (cache_set J cfg c now key d ttl) now key = Inr (Some (JSON_stringify J d))"
    using assms by (rule redis_get_after_set)
next
  assume "\<not> truthy (cache_get J c now key) \<and> fetcher () = Inl e"
  then show "getOrSet J cfg c now key fetcher ttl = (Inl e, c, 1)"
    by (simp add: getOrSet_def)
qed

theorem getOrSet_cache_aside_witness:
  "isReady ex_cache \<and> \<not> faulty ex_cache \<and> 0 \<le> ttl_or_default None (cache_ttl ex_config)
   \<and> truthy (JNum 7)
   \<and> getOrSet ex_JSON ex_config (cache_set ex_JSON ex_config ex_cache 0 ''k'' (JNum 7) None) 5 ''k''
        (produce (JNum 8)) None
      = (Inr (JNum 7), cache_set ex_JSON ex_config ex_cache 0 ''k'' (JNum 7) None, 0)
   \<and> \<not> truthy (cache_get ex_JSON ex_cache 5 ''k'')
   \<and> getOrSet ex_JSON ex_config ex_cache 5 ''k'' (produce (JNum 8)) None
      = (Inr (JNum 8), cache_set ex_JSON ex_config ex_cache 5 ''k'' (JNum 8) None, 1)"
proof -
  have r: "isReady ex_cache" "\<not> faulty ex_cache" "0 \<le> ttl_or_default None (cache_ttl ex_config)"
    by (simp_all add: ex_cache_def ex_config_def isReady_def ttl_or_default_def)
  have hit: "truthy (JNum 7) \<and> JSON_parse ex_JSON (JSON_stringify ex_JSON (JNum 7)) = Inr (JNum 7)
      \<and> JSON_stringify ex_JSON (JNum 7) \<noteq> []
      \<and> (ttl_or_default None (cache_ttl ex_config) = 0
          \<or> int 5 < int 0 + ttl_or_default None (cache_ttl ex_config))"
    by (simp add: ex_JSON_def table_JSON_def ex_config_def ttl_or_default_def)
  have miss: "\<not> truthy (cache_get ex_JSON ex_cache 5 ''k'') \<and> produce (JNum 8) () = Inr (JNum 8)"
    by (simp add: cache_get_def redis_get_def ex_cache_def isReady_def produce_def)
  show ?thesis
    using r hit miss
      getOrSet_cache_aside [OF r, of "JNum 7" ex_JSON 5 0 "''k''" "produce (JNum 8)" None "JNum 8"]
    by blast
qed

text \<open>
  C1 as stated fails for a falsy value: \<open>false\<close> is stored under \<open>k\<close> in a ready cache
  and read back within its TTL, yet \<open>getOrSet\<close> invokes the producer and returns the
  producer's value, which replaces the stored one.
\<close>

theorem getOrSet_falsy_counterexample:
  "cache_get ex_JSON (cache_set ex_JSON ex_config ex_cache 0 ''k'' (JBool False) None) 5 ''k''
     = JBool False
   \<and> getOrSet ex_JSON ex_config (cache_set ex_JSON ex_config ex_cache 0 ''k'' (JBool False) None)
        5 ''k'' (produce (JNum 8)) None
     = (Inr (JNum 8),
        \<lparr>isConnected = True, faulty = False, entries = [(''k'', ''8'', Some 3605)]\<rparr>, 1)"
  by (simp add: getOrSet_def cache_get_def cache_set_def redis_get_def redis_set_def
      isReady_def live_def ttl_or_default_def ex_cache_def ex_config_def ex_JSON_def produce_def
      table_JSON_def)

text \<open>
  C9. While the cache is not ready, the read answers \<^verbatim>\<open>null\<close>, the write leaves the
  client as it is, and \<open>getOrSet\<close> invokes the producer exactly once and returns exactly
  what the producer returned: no error of the cache can reach the caller, even on a
  faulty connection.
\<close>

theorem getOrSet_not_ready:
  "\<not> isReady c \<Longrightarrow>
     cache_get J c now key = JNull \<and> cache_set J cfg c now key v ttl = c \<and>
     getOrSet J cfg c now key fetcher ttl = (fetcher (), c, 1)"
  by (simp add: getOrSet_def cache_get_def cache_set_def split: sum.splits)

theorem getOrSet_not_ready_witness:
  "\<not> isReady ex_offline \<and>
   getOrSet ex_JSON ex_config ex_offline 5 ''k'' (produce (JNum 8)) None
     = (Inr (JNum 8), ex_offline, 1)"
  using getOrSet_not_ready [of ex_offline ex_JSON 5 "''k''" ex_config "JNum 8" None "produce (JNum 8)"]
  by (simp add: ex_offline_def isReady_def produce_def)

section \<open>The credential codec\<close>

lemma map_of_payload_object_exp: "map_of (payload_object c) ''exp'' = None"
  by (simp add: payload_object_def split: option.splits)

lemma split_token_None: "CHR ''.'' \<notin> set s \<Longrightarrow> split_token s = None"
  by (induction s) auto

lemma split_token_append:
  "CHR ''.'' \<notin> set tag \<Longrightarrow> split_token (input @ CHR ''.'' # tag) = Some (input, tag)"
  by (induction input) (auto simp: split_token_None)

lemma split_token_Some: "split_token s = Some (a, b) \<Longrightarrow> s = a @ CHR ''.'' # b"
  by (induction s arbitrary: a b) (auto split: option.splits if_splits)

lemma verify_sign:
  assumes "decode_claims P (encode_claims P
             (payload_object c @ [(''iat'', JNum (int now)), (''exp'', JNum (int now + int t))]))
           = Some (payload_object c @ [(''iat'', JNum (int now)), (''exp'', JNum (int now + int t))])"
    and "CHR ''.'' \<notin> set (hmac P secret (encode_claims P
             (payload_object c @ [(''iat'', JNum (int now)), (''exp'', JNum (int now + int t))])))"
  shows "verify P (sign P (payload_object c) secret t now) secret now' =
     (if int now + int t \<le> int now' then Inl TokenExpiredError
      else Inr (payload_object c @ [(''iat'', JNum (int now)), (''exp'', JNum (int now + int t))]))"
  using assms
  by (simp add: verify_def sign_def Let_def split_token_append map_of_payload_object_exp
      map_add_def)

text \<open>
  C5, as amended. Let the encoding of the signed claim set be decodable and its tag free
  of dots. For every claim set \<open>c\<close> of type \<open>JwtPayload\<close> and every positive validity:
  verifying a token at the moment it was signed returns the properties of \<open>c\<close>, unchanged
  and in order, followed by the issued-at and the expiry that signing added; verifying it
  once the validity has elapsed returns the invalid result.
\<close>

theorem verifyToken_generateToken:
  assumes "0 < jwt_expiresIn cfg"
    and "decode_claims P (encode_claims P
           (payload_object c
            @ [(''iat'', JNum (int now)), (''exp'', JNum (int now + int (jwt_expiresIn cfg)))]))
         = Some (payload_object c
            @ [(''iat'', JNum (int now)), (''exp'', JNum (int now + int (jwt_expiresIn cfg)))])"
    and "CHR ''.'' \<notin> set (hmac P (jwt_secret cfg) (encode_claims P
           (payload_object c
            @ [(''iat'', JNum (int now)), (''exp'', JNum (int now + int (jwt_expiresIn cfg)))])))"
  shows "verifyToken (spec_jwt P) cfg now (generateToken (spec_jwt P) cfg now c)
           = Some (payload_object c
                   @ [(''iat'', JNum (int now)), (''exp'', JNum (int now + int (jwt_expiresIn cfg)))])
       \<and> (now + jwt_expiresIn cfg \<le> now'
            \<longrightarrow> verifyToken (spec_jwt P) cfg now' (generateToken (spec_jwt P) cfg now c) = None)"
  using assms(1)
  by (simp add: verifyToken_def generateToken_def spec_jwt_def verify_sign [OF assms(2,3)])

lemma ex_signed_eq:
  "payload_object ex_claims
     @ [(''iat'', JNum (int 100)), (''exp'', JNum (int 100 + int (jwt_expiresIn ex_config)))]
   = ex_signed"
  by (simp add: ex_signed_def ex_config_def)

theorem verifyToken_generateToken_witness:
  "0 < jwt_expiresIn ex_config
   \<and> generateToken ex_jwt ex_config 100 ex_claims = ''claims-1.mac1''
   \<and> verifyToken ex_jwt ex_config 100 (generateToken ex_jwt ex_config 100 ex_claims)
      = Some [(''id'', JStr ''u1''), (''email'', JStr ''alice@example.com''),
              (''role'', JStr ''user''), (''roleId'', JStr ''r1''), (''type'', JStr ''user''),
              (''iat'', JNum 100), (''exp'', JNum 160)]
   \<and> verifyToken ex_jwt ex_config 160 (generateToken ex_jwt ex_config 100 ex_claims) = None"
proof -
  have a: "0 < jwt_expiresIn ex_config" by (simp add: ex_config_def)
  have b: "decode_claims ex_primitives (encode_claims ex_primitives
           (payload_object ex_claims
            @ [(''iat'', JNum (int 100)), (''exp'', JNum (int 100 + int (jwt_expiresIn ex_config)))]))
         = Some (payload_object ex_claims
            @ [(''iat'', JNum (int 100)), (''exp'', JNum (int 100 + int (jwt_expiresIn ex_config)))])"
    unfolding ex_signed_eq by (simp add: ex_primitives_def)
  have c: "CHR ''.'' \<notin> set (hmac ex_primitives (jwt_secret ex_config) (encode_claims ex_primitives
           (payload_object ex_claims
            @ [(''iat'', JNum (int 100)), (''exp'', JNum (int 100 + int (jwt_expiresIn ex_config)))])))"
    unfolding ex_signed_eq by (simp add: ex_primitives_def)
  have d: "generateToken ex_jwt ex_config 100 ex_claims = ''claims-1.mac1''"
    using ex_signed_eq
    by (simp add: generateToken_def ex_jwt_def spec_jwt_def sign_def Let_def ex_primitives_def
        ex_config_def)
  have e: "ex_signed = [(''id'', JStr ''u1''), (''email'', JStr ''alice@example.com''),
              (''role'', JStr ''user''), (''roleId'', JStr ''r1''), (''type'', JStr ''user''),
              (''iat'', JNum 100), (''exp'', JNum 160)]"
    by (simp add: ex_signed_def payload_object_def ex_claims_def)
  have f: "100 + jwt_expiresIn ex_config \<le> 160" by (simp add: ex_config_def)
  show ?thesis
    using a d f verifyToken_generateToken [OF a b c, of 160]
    unfolding ex_signed_eq e ex_jwt_def by simp
qed

text \<open>
  C5 as stated fails: the decoded claims are not the signed claims field for field, they
  carry \<open>iat\<close> and \<open>exp\<close> in addition.
\<close>

theorem verifyToken_generateToken_counterexample:
  "verifyToken ex_jwt ex_config 100 (generateToken ex_jwt ex_config 100 ex_claims)
     \<noteq> Some (payload_object ex_claims)"
proof -
  have "generateToken ex_jwt ex_config 100 ex_claims = ''claims-1.mac1''"
    using ex_signed_eq
    by (simp add: generateToken_def ex_jwt_def spec_jwt_def sign_def Let_def ex_primitives_def
        ex_config_def)
  moreover have "verifyToken ex_jwt ex_config 100 ''claims-1.mac1'' = Some ex_signed"
    by (simp add: verifyToken_def ex_jwt_def spec_jwt_def verify_def ex_primitives_def
        ex_config_def ex_signed_def map_of_payload_object_exp map_add_def)
  ultimately show ?thesis
    by (simp add: ex_signed_def)
qed

text \<open>Whatever the library throws, the caller of \<open>verifyToken\<close> sees \<open>None\<close>.\<close>

lemma verifyToken_any_error:
  "jwt_verify L tok (jwt_secret cfg) now = Inl e \<Longrightarrow> verifyToken L cfg now tok = None"
  by (simp add: verifyToken_def)

lemma verify_Inr:
  "verify P tok secret now = Inr d \<Longrightarrow>
     \<exists>input. split_token tok = Some (input, hmac P secret input)
        \<and> decode_claims P input = Some d"
  by (auto simp: verify_def split: option.splits if_splits json.splits)

text \<open>
  Replacing one character of a token changes its text or its tag, never both, when the
  tag keeps its length.
\<close>

lemma single_character:
  assumes s: "a @ CHR ''.'' # b = (input @ CHR ''.'' # tag)[i := c]" and l: "length b = length tag"
    and i: "i < length (input @ CHR ''.'' # tag)" and c: "c \<noteq> (input @ CHR ''.'' # tag) ! i"
  shows "(a \<noteq> input \<and> b = tag) \<or> (a = input \<and> b \<noteq> tag)"
proof -
  from arg_cong [OF s, of length] l have la: "length a = length input"
    by simp
  consider "i < length input" | "i = length input" | "length input < i" by linarith
  then show ?thesis
  proof cases
    case 1
    with s have "a @ CHR ''.'' # b = input[i := c] @ CHR ''.'' # tag"
      by (simp add: list_update_append1)
    with la have ab: "a = input[i := c]" "b = tag" by simp_all
    from 1 c have "input ! i \<noteq> c" by (simp add: nth_append)
    with 1 have "input[i := c] ! i \<noteq> input ! i" by simp
    then have "input[i := c] \<noteq> input" by auto
    with ab show ?thesis by simp
  next
    case 2
    with s have "a @ CHR ''.'' # b = input @ c # tag"
      by (simp add: list_update_append)
    with la have "c = CHR ''.''" by simp
    with 2 c show ?thesis by (simp add: nth_append)
  next
    case 3
    define j where "j = i - length input - 1"
    from 3 i have j: "i = length input + 1 + j" "j < length tag"
      by (simp_all add: j_def)
    with s have "a @ CHR ''.'' # b = input @ CHR ''.'' # tag[j := c]"
      by (simp add: list_update_append)
    with la have ab: "a = input" "b = tag[j := c]" by simp_all
    from j c have "tag ! j \<noteq> c" by (simp add: nth_append)
    with j have "tag[j := c] ! j \<noteq> tag ! j" by simp
    then have "tag[j := c] \<noteq> tag" by auto
    with ab show ?thesis by simp
  qed
qed

text \<open>
  C6. Let \<open>tok\<close> be a token that verifies, let every tag under the secret have the length
  of the tag of \<open>tok\<close>, and let no other text have that tag. Then \<open>tok\<close> with any single
  character replaced by a different one is answered with the invalid result at any time,
  and \<open>tok\<close> itself is answered with the same invalid result once its expiry has passed.
  The caller sees \<open>None\<close> in both cases and nothing else.
\<close>

theorem verifyToken_uniform_invalid:
  assumes valid: "verifyToken (spec_jwt P) cfg now tok = Some d"
    and parts: "split_token tok = Some (input, tag)"
    and len: "\<forall>m. length (hmac P (jwt_secret cfg) m) = length tag"
    and coll: "\<forall>m. m \<noteq> input \<longrightarrow> hmac P (jwt_secret cfg) m \<noteq> tag"
  shows "(i < length tok \<and> c \<noteq> tok ! i
            \<longrightarrow> verifyToken (spec_jwt P) cfg now' (tok[i := c]) = None)
       \<and> (map_of d ''exp'' = Some (JNum e) \<and> e \<le> int now'
            \<longrightarrow> verifyToken (spec_jwt P) cfg now' tok = None)"
proof (intro conjI impI)
  from valid have "verify P tok (jwt_secret cfg) now = Inr d"
    by (simp add: verifyToken_def spec_jwt_def split: sum.splits)
  then obtain input' where "split_token tok = Some (input', hmac P (jwt_secret cfg) input')"
      and dec: "decode_claims P input' = Some d"
    using verify_Inr by blast
  with parts have tag: "tag = hmac P (jwt_secret cfg) input" and dec: "decode_claims P input = Some d"
    by auto
  from parts have tok: "tok = input @ CHR ''.'' # tag" by (rule split_token_Some)
  {
    assume h: "i < length tok \<and> c \<noteq> tok ! i"
    have "verify P (tok[i := c]) (jwt_secret cfg) now' = Inr x \<Longrightarrow> False" for x
    proof -
      assume "verify P (tok[i := c]) (jwt_secret cfg) now' = Inr x"
      then obtain a where a: "split_token (tok[i := c]) = Some (a, hmac P (jwt_secret cfg) a)"
        using verify_Inr by blast
      from split_token_Some [OF a] tok
      have eq: "a @ CHR ''.'' # hmac P (jwt_secret cfg) a = (input @ CHR ''.'' # tag)[i := c]"
        by simp
      have l2: "length (hmac P (jwt_secret cfg) a) = length tag"
        using len by simp
      from h tok have i2: "i < length (input @ CHR ''.'' # tag)"
        and c2: "c \<noteq> (input @ CHR ''.'' # tag) ! i"
        by simp_all
      from single_character [OF eq l2 i2 c2]
      have "(a \<noteq> input \<and> hmac P (jwt_secret cfg) a = tag)
          \<or> (a = input \<and> hmac P (jwt_secret cfg) a \<noteq> tag)" .
      with coll tag show False by blast
    qed
    then show "verifyToken (spec_jwt P) cfg now' (tok[i := c]) = None"
      by (cases "verify P (tok[i := c]) (jwt_secret cfg) now'")
        (auto simp: verifyToken_def spec_jwt_def)
  }
  {
    assume "map_of d ''exp'' = Some (JNum e) \<and> e \<le> int now'"
    with parts dec tag show "verifyToken (spec_jwt P) cfg now' tok = None"
      by (simp add: verifyToken_def spec_jwt_def verify_def)
  }
qed

theorem verifyToken_uniform_invalid_witness:
  "verifyToken ex_jwt ex_config 100 ''claims-1.mac1'' = Some ex_signed
   \<and> ''claims-1.mac1''[12 := CHR ''0''] = ''claims-1.mac0''
   \<and> verifyToken ex_jwt ex_config 100 ''claims-1.mac0'' = None
   \<and> ''claims-1.mac1''[7 := CHR ''2''] = ''claims-2.mac1''
   \<and> verifyToken ex_jwt ex_config 100 ''claims-2.mac1'' = None
   \<and> verifyToken ex_jwt ex_config 160 ''claims-1.mac1'' = None"
proof -
  let ?tok = "''claims-1.mac1''"
  have v: "verifyToken (spec_jwt ex_primitives) ex_config 100 ?tok = Some ex_signed"
    by (simp add: verifyToken_def spec_jwt_def verify_def ex_primitives_def
        ex_config_def ex_signed_def map_of_payload_object_exp map_add_def)
  have p: "split_token ?tok = Some (''claims-1'', ''mac1'')" by simp
  have l: "\<forall>m. length (hmac ex_primitives (jwt_secret ex_config) m) = length ''mac1''"
    by (simp add: ex_primitives_def)
  have k: "\<forall>m. m \<noteq> ''claims-1'' \<longrightarrow> hmac ex_primitives (jwt_secret ex_config) m \<noteq> ''mac1''"
    by (simp add: ex_primitives_def)
  have u: "?tok[12 := CHR ''0''] = ''claims-1.mac0''" "?tok[7 := CHR ''2''] = ''claims-2.mac1''"
    by (simp_all add: list_update_code)
  have i: "12 < length ?tok \<and> CHR ''0'' \<noteq> ?tok ! 12" "7 < length ?tok \<and> CHR ''2'' \<noteq> ?tok ! 7"
    by simp_all
  have e: "map_of ex_signed ''exp'' = Some (JNum 160) \<and> 160 \<le> int 160"
    by (simp add: ex_signed_def map_of_payload_object_exp map_add_def)
  show ?thesis
    using v u i e
      verifyToken_uniform_invalid [OF v p l k, where i = 12 and c = "CHR ''0''" and now' = 100]
      verifyToken_uniform_invalid [OF v p l k, where i = 7 and c = "CHR ''2''" and now' = 100]
      verifyToken_uniform_invalid [OF v p l k, where e = 160 and now' = 160]
    unfolding ex_jwt_def by simp
qed

section \<open>Authentication\<close>

text \<open>
  C3, as amended. In \<open>multiAuth\<close>, whenever the bearer token did not admit the request,
  because no bearer token is present or because the presented one fails verification, the
  API key decides: a request that presents the configured static key is admitted as the
  system principal, one whose key is the token of an unexpired session row is admitted as
  that session's principal, and any other is rejected as unauthorized. A bearer token that
  verifies admits the request with its decoded claims, whatever the key.
\<close>

theorem multiAuth_bearer_failure_falls_through:
  "((extractTokenFromHeader (authorization req) = None
      \<or> extractTokenFromHeader (authorization req) = Some []
      \<or> (extractTokenFromHeader (authorization req) = Some tok
          \<and> verifyToken L cfg now tok = None))
     \<longrightarrow> multiAuth L cfg d now req = multiAuth_key cfg d now req
        \<and> (apiKey cfg \<noteq> [] \<and> x_api_key req = Some (apiKey cfg)
             \<longrightarrow> multiAuth L cfg d now req = Next (req\<lparr>req_user := Some system_user\<rparr>))
        \<and> (x_api_key req = Some key \<and> key \<noteq> [] \<and> (apiKey cfg = [] \<or> key \<noteq> apiKey cfg)
             \<and> session_lookup d now key = Some s
             \<longrightarrow> multiAuth L cfg d now req = Next (req\<lparr>req_user := Some (session_user s)\<rparr>))
        \<and> (x_api_key req = Some key \<and> key \<noteq> [] \<and> (apiKey cfg = [] \<or> key \<noteq> apiKey cfg)
             \<and> session_lookup d now key = None
             \<longrightarrow> multiAuth L cfg d now req
                  = Respond 401 ''Authentication required. Provide JWT token or API key'')
        \<and> (x_api_key req = None \<or> x_api_key req = Some []
             \<longrightarrow> multiAuth L cfg d now req
                  = Respond 401 ''Authentication required. Provide JWT token or API key''))
   \<and> (extractTokenFromHeader (authorization req) = Some tok \<and> tok \<noteq> []
        \<and> verifyToken L cfg now tok = Some decoded
       \<longrightarrow> multiAuth L cfg d now req = Next (req\<lparr>req_user := Some decoded\<rparr>))"
proof (intro conjI impI)
  assume nb: "extractTokenFromHeader (authorization req) = None
      \<or> extractTokenFromHeader (authorization req) = Some []
      \<or> (extractTokenFromHeader (authorization req) = Some tok
          \<and> verifyToken L cfg now tok = None)"
  then show k: "multiAuth L cfg d now req = multiAuth_key cfg d now req"
    by (auto simp: multiAuth_def)
  {
    assume "apiKey cfg \<noteq> [] \<and> x_api_key req = Some (apiKey cfg)"
    then show "multiAuth L cfg d now req = Next (req\<lparr>req_user := Some system_user\<rparr>)"
      unfolding k by (simp add: multiAuth_key_def)
  }
  {
    assume "x_api_key req = Some key \<and> key \<noteq> [] \<and> (apiKey cfg = [] \<or> key \<noteq> apiKey cfg)
             \<and> session_lookup d now key = Some s"
    then show "multiAuth L cfg d now req = Next (req\<lparr>req_user := Some (session_user s)\<rparr>)"
      unfolding k by (auto simp: multiAuth_key_def)
  }
  {
    assume "x_api_key req = Some key \<and> key \<noteq> [] \<and> (apiKey cfg = [] \<or> key \<noteq> apiKey cfg)
             \<and> session_lookup d now key = None"
    then show "multiAuth L cfg d now req
                  = Respond 401 ''Authentication required. Provide JWT token or API key''"
      unfolding k by (auto simp: multiAuth_key_def sendUnauthorized_def)
  }
  {
    assume "x_api_key req = None \<or> x_api_key req = Some []"
    then show "multiAuth L cfg d now req
                  = Respond 401 ''Authentication required. Provide JWT token or API key''"
      unfolding k by (auto simp: multiAuth_key_def sendUnauthorized_def)
  }
next
  assume "extractTokenFromHeader (authorization req) = Some tok \<and> tok \<noteq> []
        \<and> verifyToken L cfg now tok = Some decoded"
  then show "multiAuth L cfg d now req = Next (req\<lparr>req_user := Some decoded\<rparr>)"
    by (simp add: multiAuth_def)
qed

theorem multiAuth_bearer_failure_falls_through_witness:
  "extractTokenFromHeader (authorization (ex_request None (Some ''static-key''))) = None
   \<and> multiAuth ex_jwt ex_config ex_db 100 (ex_request None (Some ''static-key''))
      = Next ((ex_request None (Some ''static-key''))\<lparr>req_user := Some system_user\<rparr>)
   \<and> extractTokenFromHeader
        (authorization (ex_request (Some ''Bearer claims-1.mac0'') (Some ''static-key'')))
      = Some ''claims-1.mac0''
   \<and> verifyToken ex_jwt ex_config 100 ''claims-1.mac0'' = None
   \<and> multiAuth ex_jwt ex_config ex_db 100
        (ex_request (Some ''Bearer claims-1.mac0'') (Some ''static-key''))
      = Next ((ex_request (Some ''Bearer claims-1.mac0'') (Some ''static-key''))
               \<lparr>req_user := Some system_user\<rparr>)
   \<and> multiAuth ex_jwt ex_config ex_db 100 (ex_request (Some ''Bearer claims-1.mac0'') None)
      = Respond 401 ''Authentication required. Provide JWT token or API key''
   \<and> verifyToken ex_jwt ex_config 100 ''claims-1.mac1'' = Some ex_signed
   \<and> multiAuth ex_jwt ex_config ex_db 100
        (ex_request (Some ''Bearer claims-1.mac1'') (Some ''static-key''))
      = Next ((ex_request (Some ''Bearer claims-1.mac1'') (Some ''static-key''))
               \<lparr>req_user := Some ex_signed\<rparr>)"
proof -
  let ?none = "ex_request None (Some ''static-key'')"
  let ?bad = "ex_request (Some ''Bearer claims-1.mac0'') (Some ''static-key'')"
  let ?nokey = "ex_request (Some ''Bearer claims-1.mac0'') None"
  let ?good = "ex_request (Some ''Bearer claims-1.mac1'') (Some ''static-key'')"
  have a: "extractTokenFromHeader (authorization ?none) = None"
    "extractTokenFromHeader (authorization ?bad) = Some ''claims-1.mac0''"
    "extractTokenFromHeader (authorization ?nokey) = Some ''claims-1.mac0''"
    "extractTokenFromHeader (authorization ?good) = Some ''claims-1.mac1''"
    by (simp_all add: extractTokenFromHeader_def ex_request_def)
  have b: "verifyToken ex_jwt ex_config 100 ''claims-1.mac0'' = None"
    by (simp add: verifyToken_def ex_jwt_def spec_jwt_def verify_def ex_primitives_def
        ex_config_def)
  have g: "verifyToken ex_jwt ex_config 100 ''claims-1.mac1'' = Some ex_signed"
    by (simp add: verifyToken_def ex_jwt_def spec_jwt_def verify_def ex_primitives_def
        ex_config_def ex_signed_def payload_object_def ex_claims_def)
  have c: "apiKey ex_config \<noteq> []" "x_api_key ?none = Some (apiKey ex_config)"
    "x_api_key ?bad = Some (apiKey ex_config)" "x_api_key ?nokey = None"
    "''claims-1.mac1'' \<noteq> []"
    by (simp_all add: ex_config_def ex_request_def)
  have n: "multiAuth ex_jwt ex_config ex_db 100 ?none = Next (?none\<lparr>req_user := Some system_user\<rparr>)"
    using a(1) c(1,2)
      multiAuth_bearer_failure_falls_through
        [where req = ?none and L = ex_jwt and cfg = ex_config and now = 100 and d = ex_db]
    by blast
  have i: "multiAuth ex_jwt ex_config ex_db 100 ?bad = Next (?bad\<lparr>req_user := Some system_user\<rparr>)"
    using a(2) b c(1,3)
      multiAuth_bearer_failure_falls_through
        [where req = ?bad and L = ex_jwt and cfg = ex_config and now = 100 and d = ex_db
           and tok = "''claims-1.mac0''"]
    by blast
  have k: "multiAuth ex_jwt ex_config ex_db 100 ?nokey
      = Respond 401 ''Authentication required. Provide JWT token or API key''"
    using a(3) b c(4)
      multiAuth_bearer_failure_falls_through
        [where req = ?nokey and L = ex_jwt and cfg = ex_config and now = 100 and d = ex_db
           and tok = "''claims-1.mac0''"]
    by blast
  have v: "multiAuth ex_jwt ex_config ex_db 100 ?good = Next (?good\<lparr>req_user := Some ex_signed\<rparr>)"
    using a(4) g c(5)
      multiAuth_bearer_failure_falls_through
        [where req = ?good and L = ex_jwt and cfg = ex_config and now = 100 and d = ex_db
           and tok = "''claims-1.mac1''" and decoded = ex_signed]
    by blast
  show ?thesis
    using a(1,2) b g n i k v by simp
qed

text \<open>
  C3 as stated fails: the request carries a bearer token whose tag has been altered, so
  that it fails verification, and the configured static key; it is not rejected.
\<close>

theorem multiAuth_counterexample:
  "verifyToken ex_jwt ex_config 100 ''claims-1.mac0'' = None
   \<and> multiAuth ex_jwt ex_config ex_db 100
        (ex_request (Some ''Bearer claims-1.mac0'') (Some ''static-key''))
      = Next \<lparr>authorization = Some ''Bearer claims-1.mac0'', x_api_key = Some ''static-key'',
              req_user = Some system_user\<rparr>"
  by (simp add: multiAuth_def multiAuth_key_def verifyToken_def ex_jwt_def spec_jwt_def
      verify_def ex_primitives_def extractTokenFromHeader_def ex_request_def ex_config_def)

lemma session_user_not_system: "session_user s \<noteq> system_user"
  by (simp add: session_user_def system_user_def)

lemma session_lookup_Some:
  "session_lookup d now key = Some s \<Longrightarrow>
     \<not> db_down d \<and> s \<in> set (sessions d) \<and> session_token s = key \<and> now \<le> session_expiresAt s"
  by (auto simp: session_lookup_def session_findFirst_def find_Some_iff split: if_splits)

text \<open>
  C10. With no static key configured, a request admitted by \<open>authenticateApiKey\<close>, or by
  the key half of \<open>multiAuth\<close>, presented a non-empty key that is the token of a session
  row whose expiry has not passed, and the principal attached is built from that row, never
  the system principal; a request admitted by \<open>multiAuth\<close> was admitted by its bearer
  token or by that key half.
\<close>

theorem unconfigured_static_key:
  assumes "apiKey cfg = []"
  shows "(authenticateApiKey cfg d now req = Next r
            \<longrightarrow> (\<exists>key s. x_api_key req = Some key \<and> key \<noteq> [] \<and> \<not> db_down d
                    \<and> s \<in> set (sessions d) \<and> session_token s = key
                    \<and> now \<le> session_expiresAt s
                    \<and> r = req\<lparr>req_user := Some (session_user s)\<rparr>)
                \<and> req_user r \<noteq> Some system_user)
       \<and> (multiAuth_key cfg d now req = Next r
            \<longrightarrow> (\<exists>key s. x_api_key req = Some key \<and> key \<noteq> [] \<and> \<not> db_down d
                    \<and> s \<in> set (sessions d) \<and> session_token s = key
                    \<and> now \<le> session_expiresAt s
                    \<and> r = req\<lparr>req_user := Some (session_user s)\<rparr>)
                \<and> req_user r \<noteq> Some system_user)
       \<and> (multiAuth L cfg d now req = Next r
            \<longrightarrow> (\<exists>tok decoded. extractTokenFromHeader (authorization req) = Some tok
                    \<and> verifyToken L cfg now tok = Some decoded
                    \<and> r = req\<lparr>req_user := Some decoded\<rparr>)
                \<or> multiAuth_key cfg d now req = Next r)"
proof (intro conjI impI)
  assume a: "authenticateApiKey cfg d now req = Next r"
  then obtain key s where k: "x_api_key req = Some key" "key \<noteq> []"
      "session_lookup d now key = Some s" "r = req\<lparr>req_user := Some (session_user s)\<rparr>"
    using assms
    by (auto simp: authenticateApiKey_def sendUnauthorized_def split: option.splits if_splits)
  with session_lookup_Some [OF k(3)]
  show "\<exists>key s. x_api_key req = Some key \<and> key \<noteq> [] \<and> \<not> db_down d
                    \<and> s \<in> set (sessions d) \<and> session_token s = key
                    \<and> now \<le> session_expiresAt s
                    \<and> r = req\<lparr>req_user := Some (session_user s)\<rparr>"
    by blast
  from k show "req_user r \<noteq> Some system_user"
    by (simp add: session_user_not_system)
next
  assume a: "multiAuth_key cfg d now req = Next r"
  then obtain key s where k: "x_api_key req = Some key" "key \<noteq> []"
      "session_lookup d now key = Some s" "r = req\<lparr>req_user := Some (session_user s)\<rparr>"
    using assms
    by (auto simp: multiAuth_key_def sendUnauthorized_def Let_def split: option.splits if_splits)
  with session_lookup_Some [OF k(3)]
  show "\<exists>key s. x_api_key req = Some key \<and> key \<noteq> [] \<and> \<not> db_down d
                    \<and> s \<in> set (sessions d) \<and> session_token s = key
                    \<and> now \<le> session_expiresAt s
                    \<and> r = req\<lparr>req_user := Some (session_user s)\<rparr>"
    by blast
  from k show "req_user r \<noteq> Some system_user"
    by (simp add: session_user_not_system)
next
  assume "multiAuth L cfg d now req = Next r"
  then show "(\<exists>tok decoded. extractTokenFromHeader (authorization req) = Some tok
                    \<and> verifyToken L cfg now tok = Some decoded
                    \<and> r = req\<lparr>req_user := Some decoded\<rparr>)
                \<or> multiAuth_key cfg d now req = Next r"
    by (auto simp: multiAuth_def split: option.splits if_splits)
qed

theorem unconfigured_static_key_witness:
  "apiKey ex_config_nokey = []
   \<and> authenticateApiKey ex_config_nokey ex_db 100 (ex_request None (Some ''session-key''))
       = Next ((ex_request None (Some ''session-key''))\<lparr>req_user := Some (session_user ex_session)\<rparr>)
   \<and> req_user ((ex_request None (Some ''session-key''))\<lparr>req_user := Some (session_user ex_session)\<rparr>)
       \<noteq> Some system_user
   \<and> authenticateApiKey ex_config_nokey ex_db 100 (ex_request None (Some []))
       = Respond 401 ''API key is required''"
proof -
  have a: "apiKey ex_config_nokey = []" by (simp add: ex_config_nokey_def)
  have b: "authenticateApiKey ex_config_nokey ex_db 100 (ex_request None (Some ''session-key''))
       = Next ((ex_request None (Some ''session-key''))\<lparr>req_user := Some (session_user ex_session)\<rparr>)"
    by (simp add: authenticateApiKey_def session_lookup_def session_findFirst_def
        ex_config_nokey_def ex_config_def ex_db_def ex_session_def ex_request_def)
  have c: "authenticateApiKey ex_config_nokey ex_db 100 (ex_request None (Some []))
       = Respond 401 ''API key is required''"
    by (simp add: authenticateApiKey_def sendUnauthorized_def ex_request_def)
  show ?thesis
    using a b c unconfigured_static_key [OF a, of ex_db 100 "ex_request None (Some ''session-key'')"]
    by blast
qed

section \<open>Authorization by permission\<close>

lemma every_includes_True:
  "every_includes ps required = Inr True \<Longrightarrow> p \<in> set required \<Longrightarrow> js_includes ps p = Inr True"
  by (induction required) (auto split: sum.splits bool.splits if_splits)

text \<open>
  C4. For a request with an attached principal: a principal whose role is \<open>api\<close> is
  admitted whatever the required permissions and whatever the store holds; for any other
  principal whose user row and role are found, one required permission that the role's
  permissions do not include is enough for the answer 403, whatever else the role holds.
\<close>

theorem authorizePermission_all_or_nothing:
  assumes "req_user req = Some u"
  shows "(map_of u ''role'' = Some (JStr ''api'')
            \<longrightarrow> authorizePermission J d required req = Next req)
       \<and> (map_of u ''role'' \<noteq> Some (JStr ''api'') \<and> map_of u ''id'' = Some (JStr uid)
            \<and> user_findUnique_role d uid = Inr (Some (usr, Some r))
            \<and> parse_permissions J (role_permissions r) = Inr ps
            \<and> p \<in> set required \<and> js_includes ps p \<noteq> Inr True
            \<longrightarrow> (\<exists>message. authorizePermission J d required req = Respond 403 message))"
proof (intro conjI impI)
  assume "map_of u ''role'' = Some (JStr ''api'')"
  with assms show "authorizePermission J d required req = Next req"
    by (simp add: authorizePermission_def)
next
  assume h: "map_of u ''role'' \<noteq> Some (JStr ''api'') \<and> map_of u ''id'' = Some (JStr uid)
            \<and> user_findUnique_role d uid = Inr (Some (usr, Some r))
            \<and> parse_permissions J (role_permissions r) = Inr ps
            \<and> p \<in> set required \<and> js_includes ps p \<noteq> Inr True"
  then have "every_includes ps required \<noteq> Inr True"
    using every_includes_True by blast
  with h assms show "\<exists>message. authorizePermission J d required req = Respond 403 message"
    by (auto simp: authorizePermission_def sendForbidden_def split: sum.splits bool.splits)
qed

theorem authorizePermission_all_or_nothing_witness:
  "req_user (ex_authed system_user) = Some system_user
   \<and> authorizePermission ex_JSON ex_db [''read:users'', ''write:comments''] (ex_authed system_user)
       = Next (ex_authed system_user)
   \<and> req_user (ex_authed (ex_principal ''u1'' ''user'')) = Some (ex_principal ''u1'' ''user'')
   \<and> js_includes (JArr [JStr ''read:users'']) ''read:users'' = Inr True
   \<and> js_includes (JArr [JStr ''read:users'']) ''write:comments'' \<noteq> Inr True
   \<and> (\<exists>message. authorizePermission ex_JSON ex_db [''read:users'', ''write:comments'']
          (ex_authed (ex_principal ''u1'' ''user'')) = Respond 403 message)"
proof -
  let ?u = "ex_principal ''u1'' ''user''"
  have a: "req_user (ex_authed system_user) = Some system_user"
    and b: "req_user (ex_authed ?u) = Some ?u"
    by (simp_all add: ex_authed_def)
  have api: "map_of system_user ''role'' = Some (JStr ''api'')"
    by (simp add: system_user_def)
  have h: "map_of ?u ''role'' \<noteq> Some (JStr ''api'') \<and> map_of ?u ''id'' = Some (JStr ''u1'')
      \<and> user_findUnique_role ex_db ''u1'' = Inr (Some (ex_user, Some ex_role))
      \<and> parse_permissions ex_JSON (role_permissions ex_role) = Inr (JArr [JStr ''read:users''])
      \<and> ''write:comments'' \<in> set [''read:users'', ''write:comments'']
      \<and> js_includes (JArr [JStr ''read:users'']) ''write:comments'' \<noteq> Inr True"
    by (simp add: ex_principal_def user_findUnique_role_def parse_permissions_def table_JSON_def
        ex_db_def ex_user_def ex_role_def ex_JSON_def)
  have i: "js_includes (JArr [JStr ''read:users'']) ''read:users'' = Inr True" by simp
  show ?thesis
    using a b api h i
      authorizePermission_all_or_nothing [OF a, of ex_JSON ex_db "[''read:users'', ''write:comments'']"]
      authorizePermission_all_or_nothing [OF b, of ex_JSON ex_db "[''read:users'', ''write:comments'']"
        "''u1''" ex_user ex_role "JArr [JStr ''read:users'']" "''write:comments''"]
    by blast
qed

text \<open>
  C8, as amended. For a principal other than an \<open>api\<close> one: when its user row is
  missing the answer is 401 "User not found"; when the row's role is missing, when the
  lookup throws, or when the stored permissions do not parse, the answer is 403.
\<close>

theorem authorizePermission_unresolved_role:
  assumes "req_user req = Some u" and "map_of u ''role'' \<noteq> Some (JStr ''api'')"
    and "map_of u ''id'' = Some (JStr uid)"
  shows "(user_findUnique_role d uid = Inr None
            \<longrightarrow> authorizePermission J d required req = Respond 401 ''User not found'')
       \<and> (user_findUnique_role d uid = Inr (Some (usr, None))
            \<longrightarrow> authorizePermission J d required req = Respond 403 ''Permission check failed'')
       \<and> (user_findUnique_role d uid = Inl e
            \<longrightarrow> authorizePermission J d required req = Respond 403 ''Permission check failed'')
       \<and> (user_findUnique_role d uid = Inr (Some (usr, Some r))
            \<and> parse_permissions J (role_permissions r) = Inl e
            \<longrightarrow> authorizePermission J d required req = Respond 403 ''Permission check failed'')"
  using assms
  by (simp add: authorizePermission_def sendForbidden_def sendUnauthorized_def)

theorem authorizePermission_unresolved_role_witness:
  "req_user (ex_authed (ex_principal ''u2'' ''user'')) = Some (ex_principal ''u2'' ''user'')
   \<and> user_findUnique_role ex_db ''u2'' = Inr None
   \<and> authorizePermission ex_JSON ex_db [''read:users''] (ex_authed (ex_principal ''u2'' ''user''))
       = Respond 401 ''User not found''
   \<and> user_findUnique_role (ex_db\<lparr>users := [ex_orphan]\<rparr>) ''u2'' = Inr (Some (ex_orphan, None))
   \<and> authorizePermission ex_JSON (ex_db\<lparr>users := [ex_orphan]\<rparr>) [''read:users'']
        (ex_authed (ex_principal ''u2'' ''user''))
       = Respond 403 ''Permission check failed''
   \<and> user_findUnique_role (ex_db\<lparr>db_down := True\<rparr>) ''u2'' = Inl PrismaError
   \<and> authorizePermission ex_JSON (ex_db\<lparr>db_down := True\<rparr>) [''read:users'']
        (ex_authed (ex_principal ''u2'' ''user''))
       = Respond 403 ''Permission check failed''"
proof -
  let ?u = "ex_principal ''u2'' ''user''"
  have a: "req_user (ex_authed ?u) = Some ?u" by (simp add: ex_authed_def)
  have b: "map_of ?u ''role'' \<noteq> Some (JStr ''api'')" "map_of ?u ''id'' = Some (JStr ''u2'')"
    by (simp_all add: ex_principal_def)
  have c: "user_findUnique_role ex_db ''u2'' = Inr None"
    "user_findUnique_role (ex_db\<lparr>users := [ex_orphan]\<rparr>) ''u2'' = Inr (Some (ex_orphan, None))"
    "user_findUnique_role (ex_db\<lparr>db_down := True\<rparr>) ''u2'' = Inl PrismaError"
    by (simp_all add: user_findUnique_role_def ex_orphan_def ex_db_def ex_user_def
        ex_role_def)
  show ?thesis
    using a c
      authorizePermission_unresolved_role [OF a b, of ex_db ex_JSON "[''read:users'']"]
      authorizePermission_unresolved_role [OF a b, of "ex_db\<lparr>users := [ex_orphan]\<rparr>" ex_JSON
        "[''read:users'']" ex_orphan]
      authorizePermission_unresolved_role [OF a b, of "ex_db\<lparr>db_down := True\<rparr>" ex_JSON
        "[''read:users'']" _ PrismaError]
    by blast
qed

text \<open>
  C8 as stated fails: the principal's user row is missing and the answer is 401, not 403.
\<close>

theorem authorizePermission_missing_user_counterexample:
  "user_findUnique_role ex_db ''u9'' = Inr None
   \<and> authorizePermission ex_JSON ex_db [''read:users''] (ex_authed (ex_principal ''u9'' ''user''))
      = Respond 401 ''User not found''"
  by (simp add: authorizePermission_def user_findUnique_role_def sendUnauthorized_def
      ex_authed_def ex_principal_def ex_db_def ex_user_def ex_role_def)

section \<open>The default role\<close>

lemma filter_key_distinct:
  "distinct (map f xs) \<Longrightarrow> x \<in> set xs \<Longrightarrow> filter (\<lambda>y. f y = f x) xs = [x]"
proof (induction xs)
  case Nil
  then show ?case by simp
next
  case (Cons a xs)
  show ?case
  proof (cases "a = x")
    case True
    with Cons.prems have "f x \<notin> f ` set xs" by simp
    then have "\<forall>y \<in> set xs. f y \<noteq> f x" by (metis imageI)
    then have "filter (\<lambda>y. f y = f x) xs = []" by (simp add: filter_empty_conv)
    with True show ?thesis by simp
  next
    case False
    with Cons.prems have "x \<in> set xs" "f a \<noteq> f x" by auto
    with Cons show ?thesis by simp
  qed
qed

lemma find_SomeD: "find P xs = Some x \<Longrightarrow> P x \<and> x \<in> set xs"
  by (induction xs) (auto split: if_splits)

lemma RoleService_setDefault_exactly_one:
  assumes "distinct (map role_id (roles (db w)))"
    and "RoleService_setDefault w now rid = (Inr r, w')"
  shows "filter role_isDefault (roles (db w')) = [r] \<and> role_id r = rid"
proof -
  let ?clear = "\<lambda>x. if role_isDefault x then x\<lparr>role_isDefault := False\<rparr> else x"
  let ?mark = "\<lambda>x. if role_id x = rid then x\<lparr>role_isDefault := True\<rparr> else x"
  let ?rs = "map (?mark \<circ> ?clear) (roles (db w))"
  from assms(2) have up: "\<not> db_down (db w)" "roles (db w') = ?rs"
    and r: "find (\<lambda>x. role_id x = rid) ?rs = Some r"
    by (auto simp: RoleService_setDefault_def role_updateMany_def role_update_def
        persisted_def invalidate_def invalidatePattern_def Let_def split: if_splits option.splits)
  have ids: "map role_id ?rs = map role_id (roles (db w))" by (simp add: comp_def)
  have flt: "filter role_isDefault ?rs = filter (\<lambda>x. role_id x = rid) ?rs"
    by (rule filter_cong) auto
  have "role_id r = rid \<and> r \<in> set ?rs"
    using r by (rule find_SomeD)
  then have rin: "r \<in> set ?rs" and rid: "role_id r = rid"
    by blast+
  have "distinct (map role_id ?rs)"
    using assms(1) by (simp only: ids)
  from filter_key_distinct [OF this rin] rid
  have "filter (\<lambda>x. role_id x = rid) ?rs = [r]" by simp
  with flt up rid show ?thesis by simp
qed

lemma RoleService_update_keeps_default:
  "map role_isDefault (roles (db (snd (RoleService_update J w now rid data))))
     = map role_isDefault (roles (db w))"
  by (auto simp: RoleService_update_def role_update_def persisted_def invalidate_def invalidatePattern_def Let_def apply_UpdateRoleDto_def
      split: sum.splits option.splits if_splits)

text \<open>
  C2 on the code. The store holds one default role, \<open>r1\<close>. Creating a role with
  \<open>isDefault = true\<close> succeeds and leaves two default roles: \<open>create\<close> does not clear
  the flag of the others, as \<open>setDefault\<close> does.
\<close>

theorem RoleService_create_second_default:
  "map role_id (filter role_isDefault (roles (db ex_world))) = [''r1'']
   \<and> \<not> isl (fst (RoleService_create ex_JSON ex_world 100 ''r3'' ex_new_default))
   \<and> map role_id (filter role_isDefault
        (roles (db (snd (RoleService_create ex_JSON ex_world 100 ''r3'' ex_new_default)))))
      = [''r1'', ''r3'']"
  by (simp add: RoleService_create_def persisted_def invalidatePattern_def role_findFirst_def
      role_create_def role_view_def parse_permissions_def stringify_permissions_def Let_def
      ex_world_def ex_editor_def ex_new_default_def ex_db_def ex_role_def)

section \<open>Write paths\<close>

text \<open>
  Every write path extends the trace by nothing, when it fails before its first write, or
  by its writes followed by its invalidations; a successful run is never silent.
\<close>

lemma effects_sinceI: "trace w' = trace w @ es \<Longrightarrow> effects_since w w' = es"
  by (simp add: effects_since_def)

lemma RoleService_create_trace:
  "\<exists>es. trace (snd (RoleService_create J w now newId data)) = trace w @ es
     \<and> es \<in> {[], [Persisted ''role.create'', CacheDeletePattern ''roles:*'']}
     \<and> (\<forall>x. fst (RoleService_create J w now newId data) = Inr x \<longrightarrow> es \<noteq> [])"
  by (auto simp: RoleService_create_def persisted_def invalidate_def invalidatePattern_def Let_def split: sum.splits option.splits)

lemma RoleService_update_trace:
  "\<exists>es. trace (snd (RoleService_update J w now rid data)) = trace w @ es
     \<and> es \<in> {[], [Persisted ''role.update'', CacheDelete (''role:'' @ rid),
                  CacheDeletePattern ''roles:*'']}
     \<and> (\<forall>x. fst (RoleService_update J w now rid data) = Inr x \<longrightarrow> es \<noteq> [])"
  by (auto simp: RoleService_update_def persisted_def invalidate_def invalidatePattern_def Let_def split: sum.splits option.splits)

lemma RoleService_delete_trace:
  "\<exists>es. trace (snd (RoleService_delete w now rid)) = trace w @ es
     \<and> es \<in> {[], [Persisted ''role.delete'', CacheDelete (''role:'' @ rid),
                  CacheDeletePattern ''roles:*'']}
     \<and> (\<forall>x. fst (RoleService_delete w now rid) = Inr x \<longrightarrow> es \<noteq> [])"
  by (auto simp: RoleService_delete_def persisted_def invalidate_def invalidatePattern_def Let_def split: sum.splits option.splits)

lemma RoleService_setDefault_trace:
  "\<exists>es. trace (snd (RoleService_setDefault w now rid)) = trace w @ es
     \<and> es \<in> {[], [Persisted ''role.updateMany''],
               [Persisted ''role.updateMany'', Persisted ''role.update'',
                CacheDeletePattern ''roles:*'']}
     \<and> (\<forall>x. fst (RoleService_setDefault w now rid) = Inr x \<longrightarrow> length es = 3)"
  by (auto simp: RoleService_setDefault_def persisted_def invalidate_def invalidatePattern_def Let_def split: sum.splits option.splits)

lemma AdminService_create_trace:
  "\<exists>es. trace (snd (AdminService_create J H w now newId data)) = trace w @ es
     \<and> es \<in> {[], [Persisted ''admin.create'', CacheDeletePattern ''admins:*'']}
     \<and> (\<forall>x. fst (AdminService_create J H w now newId data) = Inr x \<longrightarrow> es \<noteq> [])"
  by (auto simp: AdminService_create_def persisted_def invalidate_def invalidatePattern_def Let_def split: sum.splits option.splits)

lemma AdminService_update_trace:
  "\<exists>es. trace (snd (AdminService_update J w aid data)) = trace w @ es
     \<and> es \<in> {[], [Persisted ''admin.update'', CacheDelete (''admin:'' @ aid)]}
     \<and> (\<forall>x. fst (AdminService_update J w aid data) = Inr x \<longrightarrow> es \<noteq> [])"
  by (auto simp: AdminService_update_def persisted_def invalidate_def invalidatePattern_def Let_def split: sum.splits option.splits)

lemma AdminService_delete_trace:
  "\<exists>es. trace (snd (AdminService_delete w now aid)) = trace w @ es
     \<and> es \<in> {[], [Persisted ''admin.delete'', CacheDelete (''admin:'' @ aid),
                  CacheDeletePattern ''admins:*'']}
     \<and> (\<forall>x. fst (AdminService_delete w now aid) = Inr x \<longrightarrow> es \<noteq> [])"
  by (auto simp: AdminService_delete_def persisted_def invalidate_def invalidatePattern_def Let_def split: sum.splits option.splits)

lemma AdminService_toggleUserStatus_trace:
  "\<exists>es. trace (snd (AdminService_toggleUserStatus w uid)) = trace w @ es
     \<and> es \<in> {[], [Persisted ''user.update'', CacheDelete (''user:'' @ uid)]}
     \<and> (\<forall>x. fst (AdminService_toggleUserStatus w uid) = Inr x \<longrightarrow> es \<noteq> [])"
  by (auto simp: AdminService_toggleUserStatus_def persisted_def invalidate_def invalidatePattern_def Let_def split: sum.splits option.splits)

lemma UserService_create_trace:
  "\<exists>es. trace (snd (UserService_create H w now newId data)) = trace w @ es
     \<and> es \<in> {[], [Persisted ''user.create'', CacheDeletePattern ''users:*'']}
     \<and> (\<forall>x. fst (UserService_create H w now newId data) = Inr x \<longrightarrow> es \<noteq> [])"
  by (auto simp: UserService_create_def persisted_def invalidate_def invalidatePattern_def Let_def split: sum.splits option.splits)

lemma UserService_update_trace:
  "\<exists>es. trace (snd (UserService_update w uid data)) = trace w @ es
     \<and> es \<in> {[], [Persisted ''user.update'', CacheDelete (''user:'' @ uid)]}
     \<and> (\<forall>x. fst (UserService_update w uid data) = Inr x \<longrightarrow> es \<noteq> [])"
  by (auto simp: UserService_update_def persisted_def invalidate_def invalidatePattern_def Let_def split: sum.splits option.splits)

lemma UserService_delete_trace:
  "\<exists>es. trace (snd (UserService_delete w now uid)) = trace w @ es
     \<and> es \<in> {[], [Persisted ''user.delete'', CacheDelete (''user:'' @ uid),
                  CacheDeletePattern ''users:*'']}
     \<and> (\<forall>x. fst (UserService_delete w now uid) = Inr x \<longrightarrow> es \<noteq> [])"
  by (auto simp: UserService_delete_def persisted_def invalidate_def invalidatePattern_def Let_def split: sum.splits option.splits)

lemma RoleService_getById_trace: "trace (snd (RoleService_getById J cfg w now rid)) = trace w"
  by (simp add: RoleService_getById_def split: prod.splits)

lemma UserService_changeRole_trace:
  "\<exists>es. trace (snd (UserService_changeRole J cfg w now uid rid)) = trace w @ es
     \<and> es \<in> {[], [Persisted ''user.update'', CacheDelete (''user:'' @ uid)]}
     \<and> (\<forall>x. fst (UserService_changeRole J cfg w now uid rid) = Inr x \<longrightarrow> es \<noteq> [])"
  using RoleService_getById_trace [of J cfg w now rid]
  by (auto simp: UserService_changeRole_def persisted_def invalidate_def invalidatePattern_def Let_def split: sum.splits option.splits prod.splits)

text \<open>
  What each write path does when it succeeds: the writes to the store come first, the
  invalidations after them, a key before a pattern.
\<close>

lemma effects_RoleService_create:
  "fst (RoleService_create J w now newId data) = Inr x \<Longrightarrow>
     effects_since w (snd (RoleService_create J w now newId data))
       = [Persisted ''role.create'', CacheDeletePattern ''roles:*'']"
  using RoleService_create_trace [of J w now newId data] by (auto simp: effects_since_def)

lemma effects_RoleService_update:
  "fst (RoleService_update J w now rid data) = Inr x \<Longrightarrow>
     effects_since w (snd (RoleService_update J w now rid data))
       = [Persisted ''role.update'', CacheDelete (''role:'' @ rid), CacheDeletePattern ''roles:*'']"
  using RoleService_update_trace [of J w now rid data] by (auto simp: effects_since_def)

lemma effects_RoleService_delete:
  "fst (RoleService_delete w now rid) = Inr x \<Longrightarrow>
     effects_since w (snd (RoleService_delete w now rid))
       = [Persisted ''role.delete'', CacheDelete (''role:'' @ rid), CacheDeletePattern ''roles:*'']"
  using RoleService_delete_trace [of w now rid] by (auto simp: effects_since_def)

lemma effects_RoleService_setDefault:
  "fst (RoleService_setDefault w now rid) = Inr x \<Longrightarrow>
     effects_since w (snd (RoleService_setDefault w now rid))
       = [Persisted ''role.updateMany'', Persisted ''role.update'', CacheDeletePattern ''roles:*'']"
  using RoleService_setDefault_trace [of w now rid] by (auto simp: effects_since_def)

lemma effects_AdminService_create:
  "fst (AdminService_create J H w now newId data) = Inr x \<Longrightarrow>
     effects_since w (snd (AdminService_create J H w now newId data))
       = [Persisted ''admin.create'', CacheDeletePattern ''admins:*'']"
  using AdminService_create_trace [of J H w now newId data] by (auto simp: effects_since_def)

lemma effects_AdminService_update:
  "fst (AdminService_update J w aid data) = Inr x \<Longrightarrow>
     effects_since w (snd (AdminService_update J w aid data))
       = [Persisted ''admin.update'', CacheDelete (''admin:'' @ aid)]"
  using AdminService_update_trace [of J w aid data] by (auto simp: effects_since_def)

lemma effects_AdminService_delete:
  "fst (AdminService_delete w now aid) = Inr x \<Longrightarrow>
     effects_since w (snd (AdminService_delete w now aid))
       = [Persisted ''admin.delete'', CacheDelete (''admin:'' @ aid), CacheDeletePattern ''admins:*'']"
  using AdminService_delete_trace [of w now aid] by (auto simp: effects_since_def)

lemma effects_AdminService_toggleUserStatus:
  "fst (AdminService_toggleUserStatus w uid) = Inr x \<Longrightarrow>
     effects_since w (snd (AdminService_toggleUserStatus w uid))
       = [Persisted ''user.update'', CacheDelete (''user:'' @ uid)]"
  using AdminService_toggleUserStatus_trace [of w uid] by (auto simp: effects_since_def)

lemma effects_UserService_create:
  "fst (UserService_create H w now newId data) = Inr x \<Longrightarrow>
     effects_since w (snd (UserService_create H w now newId data))
       = [Persisted ''user.create'', CacheDeletePattern ''users:*'']"
  using UserService_create_trace [of H w now newId data] by (auto simp: effects_since_def)

lemma effects_UserService_update:
  "fst (UserService_update w uid data) = Inr x \<Longrightarrow>
     effects_since w (snd (UserService_update w uid data))
       = [Persisted ''user.update'', CacheDelete (''user:'' @ uid)]"
  using UserService_update_trace [of w uid data] by (auto simp: effects_since_def)

lemma effects_UserService_delete:
  "fst (UserService_delete w now uid) = Inr x \<Longrightarrow>
     effects_since w (snd (UserService_delete w now uid))
       = [Persisted ''user.delete'', CacheDelete (''user:'' @ uid), CacheDeletePattern ''users:*'']"
  using UserService_delete_trace [of w now uid] by (auto simp: effects_since_def)

lemma effects_UserService_changeRole:
  "fst (UserService_changeRole J cfg w now uid rid) = Inr x \<Longrightarrow>
     effects_since w (snd (UserService_changeRole J cfg w now uid rid))
       = [Persisted ''user.update'', CacheDelete (''user:'' @ uid)]"
  using UserService_changeRole_trace [of J cfg w now uid rid] by (auto simp: effects_since_def)

text \<open>
  C7 on the code, in three runs from a store with the roles \<open>r1\<close> (the default) and \<open>r2\<close>.

  The role \<open>r2\<close> is read, which caches it under \<open>role:r2\<close>, and then made the default:
  \<open>setDefault\<close> succeeds, writes twice and invalidates the pattern \<open>roles:*\<close> alone, so
  the store says \<open>r2\<close> is the default and \<open>getById\<close> still answers the cached role, which
  is not.

  The listing of the roles is served through \<open>cacheMiddleware\<close>, which caches it under
  \<open>cache:/api/roles\<close>, and then \<open>r2\<close> is renamed: \<open>update\<close> succeeds and invalidates
  \<open>role:r2\<close> and \<open>roles:*\<close>, neither of which covers the cached listing, so the next
  request for the listing is answered with the old one and the handler is not run.

  An admin is renamed: \<open>update\<close> succeeds and invalidates \<open>admin:a1\<close> and no pattern.
\<close>

theorem write_paths_stale_cache:
  "fst (RoleService_getById ex_role_JSON ex_config ex_fresh_world 100 ''r2'')
      = Inr (role_json ex_editor (JArr []) 0)
   \<and> fst (RoleService_setDefault ex_after_read 101 ''r2'')
      = Inr (ex_editor\<lparr>role_isDefault := True\<rparr>)
   \<and> effects_since ex_after_read ex_after_setDefault
      = [Persisted ''role.updateMany'', Persisted ''role.update'', CacheDeletePattern ''roles:*'']
   \<and> find (\<lambda>r. role_id r = ''r2'') (roles (db ex_after_setDefault))
      = Some (ex_editor\<lparr>role_isDefault := True\<rparr>)
   \<and> fst (RoleService_getById ex_role_JSON ex_config ex_after_setDefault 102 ''r2'')
      = Inr (role_json ex_editor (JArr []) 0)
   \<and> cacheMiddleware ex_role_JSON ex_config ex_cache 100 (Some 300) ''GET'' ''/api/roles''
        (respond ex_listing_before)
      = ((200, ex_listing_before), cache ex_after_list)
   \<and> fst (RoleService_update ex_role_JSON ex_after_list 101 ''r2'' ex_rename_role)
      = Inr (ex_editor\<lparr>role_name := ''Writer''\<rparr>, JArr [])
   \<and> effects_since ex_after_list ex_after_update
      = [Persisted ''role.update'', CacheDelete ''role:r2'', CacheDeletePattern ''roles:*'']
   \<and> cacheMiddleware ex_role_JSON ex_config (cache ex_after_update) 102 (Some 300) ''GET''
        ''/api/roles'' (respond ex_listing_after)
      = ((200, ex_listing_before), cache ex_after_update)
   \<and> fst (AdminService_update ex_JSON ex_world ''a1'' ex_rename_admin)
      = Inr (ex_admin\<lparr>admin_name := ''Admin''\<rparr>, JArr [])
   \<and> effects_since ex_world (snd (AdminService_update ex_JSON ex_world ''a1'' ex_rename_admin))
      = [Persisted ''admin.update'', CacheDelete ''admin:a1'']"
proof -
  have r1: "ex_after_read
      = ex_fresh_world\<lparr>cache := ex_cache\<lparr>entries := [(''role:r2'', ''role-r2'', Some 3700)]\<rparr>\<rparr>"
    and g1: "fst (RoleService_getById ex_role_JSON ex_config ex_fresh_world 100 ''r2'')
      = Inr (role_json ex_editor (JArr []) 0)"
    by (simp_all add: ex_after_read_def RoleService_getById_def getOrSet_def cache_get_def
        cache_set_def redis_get_def redis_set_def isReady_def ttl_or_default_def
        role_findFirst_def role_findUnique_def role_userCount_def parse_permissions_def
        ex_fresh_world_def ex_world_def ex_db_def ex_role_def ex_editor_def ex_user_def
        ex_cache_def ex_config_def ex_role_JSON_def table_JSON_def role_json_def
        ex_listing_before_def ex_listing_after_def)
  have s1: "ex_after_setDefault
      = ex_after_read\<lparr>db := (db ex_after_read)\<lparr>roles := [ex_role\<lparr>role_isDefault := False\<rparr>,
                                                          ex_editor\<lparr>role_isDefault := True\<rparr>]\<rparr>,
                        trace := [Persisted ''role.updateMany'', Persisted ''role.update'',
                                  CacheDeletePattern ''roles:*'']\<rparr>"
    and s2: "fst (RoleService_setDefault ex_after_read 101 ''r2'')
      = Inr (ex_editor\<lparr>role_isDefault := True\<rparr>)"
    unfolding ex_after_setDefault_def r1
    by (simp_all add: RoleService_setDefault_def persisted_def invalidatePattern_def
        cache_deletePattern_def redis_keys_def redis_del_def isReady_def live_def
        role_findUnique_def role_updateMany_def role_update_def Let_def
        ex_fresh_world_def ex_world_def ex_db_def ex_role_def ex_editor_def ex_cache_def)
  have e3: "effects_since ex_after_read ex_after_setDefault
      = [Persisted ''role.updateMany'', Persisted ''role.update'', CacheDeletePattern ''roles:*'']"
    by (simp add: s1 r1 effects_since_def ex_fresh_world_def ex_world_def)
  have f4: "find (\<lambda>r. role_id r = ''r2'') (roles (db ex_after_setDefault))
      = Some (ex_editor\<lparr>role_isDefault := True\<rparr>)"
    by (simp add: s1 r1 ex_fresh_world_def ex_world_def ex_role_def ex_editor_def)
  have g5: "fst (RoleService_getById ex_role_JSON ex_config ex_after_setDefault 102 ''r2'')
      = Inr (role_json ex_editor (JArr []) 0)"
    by (simp add: s1 r1 RoleService_getById_def getOrSet_def cache_get_def redis_get_def
        isReady_def live_def ex_fresh_world_def ex_world_def ex_cache_def ex_role_JSON_def
        table_JSON_def truthy.simps role_json_def)
  have l1: "ex_after_list
      = ex_fresh_world\<lparr>cache := ex_cache\<lparr>entries := [(''cache:/api/roles'', ''roles-before'', Some 400)]\<rparr>\<rparr>"
    and m6: "cacheMiddleware ex_role_JSON ex_config ex_cache 100 (Some 300) ''GET'' ''/api/roles''
        (respond ex_listing_before)
      = ((200, ex_listing_before), cache ex_after_list)"
    by (simp_all add: ex_after_list_def cacheMiddleware_def respond_def redis_get_def
        redis_set_def isReady_def ttl_or_default_def ex_cache_def ex_config_def
        ex_role_JSON_def table_JSON_def ex_listing_before_def ex_listing_after_def
        role_json_def)
  have u1: "ex_after_update
      = ex_after_list\<lparr>db := (db ex_after_list)\<lparr>roles := [ex_role,
                                                         ex_editor\<lparr>role_name := ''Writer''\<rparr>]\<rparr>,
                       trace := [Persisted ''role.update'', CacheDelete ''role:r2'',
                                 CacheDeletePattern ''roles:*'']\<rparr>"
    and u7: "fst (RoleService_update ex_role_JSON ex_after_list 101 ''r2'' ex_rename_role)
      = Inr (ex_editor\<lparr>role_name := ''Writer''\<rparr>, JArr [])"
    unfolding ex_after_update_def l1
    by (simp_all add: RoleService_update_def persisted_def invalidate_def invalidatePattern_def
        cache_delete_def cache_deletePattern_def redis_keys_def redis_del_def isReady_def
        live_def role_findUnique_def role_update_def Let_def parse_permissions_def
        apply_UpdateRoleDto_def role_view_def ex_rename_role_def ex_fresh_world_def ex_world_def ex_db_def ex_role_def ex_editor_def
        ex_cache_def)
  have e8: "effects_since ex_after_list ex_after_update
      = [Persisted ''role.update'', CacheDelete ''role:r2'', CacheDeletePattern ''roles:*'']"
    by (simp add: u1 l1 effects_since_def ex_fresh_world_def ex_world_def)
  have m9: "cacheMiddleware ex_role_JSON ex_config (cache ex_after_update) 102 (Some 300) ''GET''
        ''/api/roles'' (respond ex_listing_after)
      = ((200, ex_listing_before), cache ex_after_update)"
    by (simp add: u1 l1 cacheMiddleware_def respond_def redis_get_def isReady_def live_def
        ex_fresh_world_def ex_world_def ex_cache_def ex_role_JSON_def table_JSON_def
        ex_listing_before_def)
  have a10: "fst (AdminService_update ex_JSON ex_world ''a1'' ex_rename_admin)
      = Inr (ex_admin\<lparr>admin_name := ''Admin''\<rparr>, JArr [])"
    and e11: "effects_since ex_world (snd (AdminService_update ex_JSON ex_world ''a1'' ex_rename_admin))
      = [Persisted ''admin.update'', CacheDelete ''admin:a1'']"
    by (simp_all add: AdminService_update_def persisted_def invalidate_def cache_delete_def
        redis_del_def isReady_def effects_since_def Let_def parse_permissions_def
        admin_update_def apply_UpdateAdminDto_def ex_rename_admin_def ex_world_def ex_db_def ex_admin_def ex_cache_def)
  show ?thesis
    by (intro conjI g1 s2 e3 f4 g5 m6 u7 e8 m9 a10 e11)
qed

end
